theory Spec2Isabelle
  imports Main "HOL-Library.Word"
begin

section \<open>BlackMirror: recording and replaying the interaction with a callback API\<close>

text \<open>
  A shallow embedding of \<^verbatim>\<open>black-mirror.js\<close>: the value codec
  (\<^verbatim>\<open>JSWrappedObject\<close>, \<^verbatim>\<open>Closure\<close>, \<^verbatim>\<open>Arguments\<close>), the events of the
  interaction log and the replay engine (\<^verbatim>\<open>Checker\<close>).
\<close>

subsection \<open>JavaScript values\<close>

text \<open>
  The values that cross the API: the JSON values, the binary buffers and the functions.
  Numbers are restricted to the integers. An object is the list of its own properties in
  creation order. A function is known by its reference only (\<^verbatim>\<open>===\<close> on two functions
  compares the references), so it is a number naming the function; what calling it does
  is given separately. \<open>Closure f\<close> is the object \<^verbatim>\<open>new Closure(f)\<close>.
\<close>

datatype jsval =
    JUndefined
  | JNull
  | JBool bool
  | JNum int
  | JStr string
  | JArr "jsval list"
  | JObj "(string \<times> jsval) list"
  | ArrayBuffer "8 word list"
  | JFunction nat
  | Closure nat

text \<open>
  What the code throws: \<^verbatim>\<open>Error(msg)\<close>, a failed \<^verbatim>\<open>assert\<close> and the \<^verbatim>\<open>TypeError\<close>
  of the language itself (a property read on \<^verbatim>\<open>null\<close> or \<^verbatim>\<open>undefined\<close>). Messages
  are kept up to the values the source appends to them. \<open>Unmodelled\<close> marks the
  conversions of the language that are left out (see \<open>toUint8\<close>).
\<close>

datatype error =
    Error string
  | AssertionError string
  | TypeError string
  | Unmodelled string

fun typeof :: "jsval \<Rightarrow> string" where
  "typeof JUndefined = ''undefined''"
| "typeof (JBool _) = ''boolean''"
| "typeof (JNum _) = ''number''"
| "typeof (JStr _) = ''string''"
| "typeof (JFunction _) = ''function''"
| "typeof _ = ''object''"

fun truthy :: "jsval \<Rightarrow> bool" where
  "truthy JUndefined = False"
| "truthy JNull = False"
| "truthy (JBool b) = b"
| "truthy (JNum n) = (n \<noteq> 0)"
| "truthy (JStr s) = (s \<noteq> [])"
| "truthy _ = True"

fun instanceof_ArrayBuffer :: "jsval \<Rightarrow> bool" where
  "instanceof_ArrayBuffer (ArrayBuffer _) = True"
| "instanceof_ArrayBuffer _ = False"

fun instanceof_Closure :: "jsval \<Rightarrow> bool" where
  "instanceof_Closure (Closure _) = True"
| "instanceof_Closure _ = False"

text \<open>
  The property read \<^verbatim>\<open>v.k\<close>, for the properties the codec reads from a value of unknown
  kind (\<^verbatim>\<open>data\<close>, \<^verbatim>\<open>_type\<close>, \<^verbatim>\<open>wrapped_type\<close>, \<^verbatim>\<open>value\<close>, \<^verbatim>\<open>callback_from\<close>): an
  object has it or not, \<^verbatim>\<open>null\<close> and \<^verbatim>\<open>undefined\<close> throw, every other value has none
  of them.
\<close>

fun getprop :: "jsval \<Rightarrow> string \<Rightarrow> error + jsval" where
  "getprop JUndefined k = Inl (TypeError ''Cannot read property of undefined'')"
| "getprop JNull k = Inl (TypeError ''Cannot read property of null'')"
| "getprop (JObj ps) k = (case map_of ps k of None \<Rightarrow> Inr JUndefined | Some v \<Rightarrow> Inr v)"
| "getprop _ k = Inr JUndefined"

subsection \<open>Byte buffers\<close>

text \<open>
  \<^verbatim>\<open>bufferView[i] = hex[i]\<close> on a \<^verbatim>\<open>Uint8Array\<close> stores the number modulo 256. The
  conversion to a number of \<^verbatim>\<open>undefined\<close>, \<^verbatim>\<open>null\<close> and the booleans is written out;
  that of strings and objects is not modelled.
\<close>

fun toUint8 :: "jsval \<Rightarrow> error + 8 word" where
  "toUint8 (JNum n) = Inr (word_of_int n)"
| "toUint8 (JBool b) = Inr (if b then 1 else 0)"
| "toUint8 JNull = Inr 0"
| "toUint8 JUndefined = Inr 0"
| "toUint8 _ = Inl (Unmodelled ''ToNumber of a string or an object'')"

fun toUint8s :: "jsval list \<Rightarrow> error + 8 word list" where
  "toUint8s [] = Inr []"
| "toUint8s (x # xs) =
     (case toUint8 x of
        Inl e \<Rightarrow> Inl e
      | Inr b \<Rightarrow> (case toUint8s xs of Inl e \<Rightarrow> Inl e | Inr bs \<Rightarrow> Inr (b # bs)))"

fun arrToBuf :: "jsval \<Rightarrow> error + jsval" where
  "arrToBuf (JArr hex) =
     (case toUint8s hex of Inl e \<Rightarrow> Inl e | Inr bs \<Rightarrow> Inr (ArrayBuffer bs))"
| "arrToBuf _ = Inl (Error ''not of type Array'')"

fun bufToArr :: "jsval \<Rightarrow> error + jsval" where
  "bufToArr (ArrayBuffer bin) = Inr (JArr (map (\<lambda>b. JNum (uint b)) bin))"
| "bufToArr _ = Inl (Error ''not of type ArrayBuffer'')"

subsection \<open>Calls and callback references\<close>

text \<open>
  \<^verbatim>\<open>new Arguments(args)\<close> wraps every function among the arguments into a
  \<^verbatim>\<open>Closure\<close>; an \<^verbatim>\<open>ApiMessage\<close> is a method name with such arguments.
\<close>

definition Arguments :: "jsval list \<Rightarrow> jsval list" where
  "Arguments deserializedArgs =
     map (\<lambda>a. case a of JFunction f \<Rightarrow> Closure f | _ \<Rightarrow> a) deserializedArgs"

definition closures :: "jsval list \<Rightarrow> jsval list" where
  "closures as = filter instanceof_Closure as"

definition raw :: "jsval list \<Rightarrow> jsval list" where
  "raw as = map (\<lambda>a. case a of Closure f \<Rightarrow> JFunction f | _ \<Rightarrow> a) as"

datatype ApiMessage = ApiMessage (am_name: string) (am_args: "jsval list")

text \<open>\<^verbatim>\<open>ApiMessage.prototype.closure\<close>: the first closure among the arguments, or null.\<close>

definition closure :: "ApiMessage \<Rightarrow> jsval" where
  "closure am = (case closures (am_args am) of [] \<Rightarrow> JNull | c # _ \<Rightarrow> c)"

definition closure_json :: "nat \<Rightarrow> jsval" where
  "closure_json i = JObj [(''_type'', JStr ''closure''), (''callback_from'', JNum (int i))]"

text \<open>
  \<^verbatim>\<open>Closure.prototype.serialize\<close>: the loop over the indices \<open>i\<close>, \<open>i + 1\<close>, ... of
  the api messages.
\<close>

fun serialize_loop :: "nat \<Rightarrow> nat \<Rightarrow> ApiMessage list \<Rightarrow> error + jsval" where
  "serialize_loop fn i [] = Inl (Error ''Closure callback not found in API messages'')"
| "serialize_loop fn i (am # ams) =
     (if closure am = Closure fn then Inr (closure_json i)
      else serialize_loop fn (Suc i) ams)"

definition Closure_serialize :: "nat \<Rightarrow> ApiMessage list \<Rightarrow> error + jsval" where
  "Closure_serialize fn apimessages = serialize_loop fn 0 apimessages"

subsection \<open>The value codec\<close>

definition wrapped_js_object :: "jsval \<Rightarrow> jsval" where
  "wrapped_js_object v =
     JObj [(''_type'', JStr ''wrapped_js_object''),
           (''wrapped_type'', JStr ''ArrayBuffer''),
           (''value'', v)]"

fun JSWrappedObject_serialize :: "ApiMessage list \<Rightarrow> jsval \<Rightarrow> error + jsval"
  and serialize_props ::
    "ApiMessage list \<Rightarrow> (string \<times> jsval) list \<Rightarrow> error + (string \<times> jsval) list"
where
  "JSWrappedObject_serialize apimessages value =
     (if instanceof_ArrayBuffer value then
        (case bufToArr value of Inl e \<Rightarrow> Inl e | Inr arr \<Rightarrow> Inr (wrapped_js_object arr))
      else
        (case (if typeof value = ''object'' then getprop value ''data'' else Inr JUndefined) of
           Inl e \<Rightarrow> Inl e
         | Inr d \<Rightarrow>
             if typeof value = ''object'' \<and> truthy d \<and> instanceof_ArrayBuffer d then
               (case value of
                  JObj ps \<Rightarrow>
                    (case serialize_props apimessages ps of
                       Inl e \<Rightarrow> Inl e
                     | Inr ret \<Rightarrow> Inr (JObj ret))
                | _ \<Rightarrow> Inr value)
             else
               (case value of
                  Closure fn \<Rightarrow> Closure_serialize fn apimessages
                | _ \<Rightarrow> Inr value)))"
| "serialize_props apimessages [] = Inr []"
| "serialize_props apimessages ((k, v) # ps) =
     (case JSWrappedObject_serialize apimessages v of
        Inl e \<Rightarrow> Inl e
      | Inr v' \<Rightarrow>
          (case serialize_props apimessages ps of
             Inl e \<Rightarrow> Inl e
           | Inr ret \<Rightarrow> Inr ((k, v') # ret)))"

text \<open>
  \<^verbatim>\<open>jt(json, type)\<close>, the check of a node's \<^verbatim>\<open>_type\<close> tag, and the read
  \<^verbatim>\<open>apimessages[k]\<close> of an array at a key taken from a node (a string or an object as
  key is not modelled).
\<close>

definition jt :: "jsval \<Rightarrow> string \<Rightarrow> error + unit" where
  "jt json ty =
     (case getprop json ''_type'' of
        Inl e \<Rightarrow> Inl e
      | Inr t \<Rightarrow> if t = JStr ty then Inr () else Inl (Error (''should be a '' @ ty)))"

fun at_key :: "'a list \<Rightarrow> jsval \<Rightarrow> error + 'a option" where
  "at_key xs (JNum i) = Inr (if 0 \<le> i \<and> i < int (length xs) then Some (xs ! nat i) else None)"
| "at_key xs JUndefined = Inr None"
| "at_key xs JNull = Inr None"
| "at_key xs (JBool _) = Inr None"
| "at_key xs _ = Inl (Unmodelled ''a string or an object as array index'')"

text \<open>
  \<^verbatim>\<open>Closure.deserialize\<close>: the callback of the call at \<^verbatim>\<open>callback_from\<close>, which is
  the first closure of that call or \<^verbatim>\<open>null\<close>.
\<close>

definition Closure_deserialize :: "ApiMessage list \<Rightarrow> jsval \<Rightarrow> error + jsval" where
  "Closure_deserialize apimessages json =
     (case jt json ''closure'' of
        Inl e \<Rightarrow> Inl e
      | Inr _ \<Rightarrow>
          (case getprop json ''callback_from'' of
             Inl e \<Rightarrow> Inl e
           | Inr k \<Rightarrow>
               (case at_key apimessages k of
                  Inl e \<Rightarrow> Inl e
                | Inr None \<Rightarrow> Inl (Error ''undefined not of type ApiMessage'')
                | Inr (Some am) \<Rightarrow> Inr (closure am))))"

text \<open>
  The test \<^verbatim>\<open>typeof json.data === 'object' && json.data._type === 'wrapped_js_object' &&
  json.data.wrapped_type === 'ArrayBuffer'\<close> of \<^verbatim>\<open>deserialize\<close> and \<^verbatim>\<open>assertEqual\<close>,
  for a \<^verbatim>\<open>json\<close> that is not \<^verbatim>\<open>null\<close>.
\<close>

definition deeper_ArrayBuffer :: "jsval \<Rightarrow> error + bool" where
  "deeper_ArrayBuffer json =
     (case getprop json ''data'' of
        Inl e \<Rightarrow> Inl e
      | Inr d \<Rightarrow>
          if typeof d \<noteq> ''object'' then Inr False
          else
            (case getprop d ''_type'' of
               Inl e \<Rightarrow> Inl e
             | Inr t \<Rightarrow>
                 if t \<noteq> JStr ''wrapped_js_object'' then Inr False
                 else
                   (case getprop d ''wrapped_type'' of
                      Inl e \<Rightarrow> Inl e
                    | Inr w \<Rightarrow> Inr (w = JStr ''ArrayBuffer''))))"

fun JSWrappedObject_deserialize :: "ApiMessage list \<Rightarrow> jsval \<Rightarrow> error + jsval"
  and deserialize_props :: "(string \<times> jsval) list \<Rightarrow> error + (string \<times> jsval) list"
where
  "JSWrappedObject_deserialize apimessages json =
     (if typeof json \<noteq> ''object'' then Inr json
      else
        (case getprop json ''_type'' of
           Inl e \<Rightarrow> Inl e
         | Inr t \<Rightarrow>
             if t = JStr ''closure'' then Closure_deserialize apimessages json
             else
               (case deeper_ArrayBuffer json of
                  Inl e \<Rightarrow> Inl e
                | Inr True \<Rightarrow>
                    (case json of
                       JObj ps \<Rightarrow>
                         (case deserialize_props ps of
                            Inl e \<Rightarrow> Inl e
                          | Inr ret \<Rightarrow> Inr (JObj ret))
                     | _ \<Rightarrow> Inr json)
                | Inr False \<Rightarrow>
                    if t \<noteq> JStr ''wrapped_js_object'' then Inr json
                    else
                      (case getprop json ''wrapped_type'' of
                         Inl e \<Rightarrow> Inl e
                       | Inr w \<Rightarrow>
                           if w = JStr ''ArrayBuffer'' then
                             (case getprop json ''value'' of
                                Inl e \<Rightarrow> Inl e
                              | Inr v \<Rightarrow> arrToBuf v)
                           else Inl (Error ''Could not deserialize '')))))"
| "deserialize_props [] = Inr []"
| "deserialize_props ((k, v) # ps) =
     (case JSWrappedObject_deserialize [] v of
        Inl e \<Rightarrow> Inl e
      | Inr v' \<Rightarrow>
          (case deserialize_props ps of
             Inl e \<Rightarrow> Inl e
           | Inr ret \<Rightarrow> Inr ((k, v') # ret)))"

subsection \<open>Equality of an actual value and a recorded one\<close>

text \<open>
  The comparisons of Node's \<^verbatim>\<open>assert\<close> module are not part of the repository:
  \<^verbatim>\<open>assert.equal\<close> (the operator \<^verbatim>\<open>==\<close>) and \<^verbatim>\<open>assert.deepEqual\<close> on two payload
  values are parameters. Where the code compares two strings, two lengths or two function
  references with them, the comparison is written out as equality.
\<close>

record node_assert =
  assert_equal :: "jsval \<Rightarrow> jsval \<Rightarrow> bool"
  assert_deepEqual :: "jsval \<Rightarrow> jsval \<Rightarrow> bool"

text \<open>
  \<^verbatim>\<open>Closure.prototype.assertEqual\<close>, for the closure of the function \<open>fn\<close>. A
  \<^verbatim>\<open>callback_from\<close> at or beyond the number of api messages is a new callback and nothing
  is compared.
\<close>

definition Closure_assertEqual :: "nat \<Rightarrow> jsval \<Rightarrow> ApiMessage list \<Rightarrow> error + unit" where
  "Closure_assertEqual fn json apimessages =
     (case jt json ''closure'' of
        Inl e \<Rightarrow> Inl e
      | Inr _ \<Rightarrow>
          (case getprop json ''callback_from'' of
             Inl e \<Rightarrow> Inl e
           | Inr k \<Rightarrow>
               (case k of
                  JNum i \<Rightarrow>
                    if i < int (length apimessages) then
                      (if i < 0 then Inl (TypeError ''Cannot read property of undefined'')
                       else
                         (case closure (apimessages ! nat i) of
                            Closure g \<Rightarrow> if fn = g then Inr () else Inl (AssertionError [])
                          | _ \<Rightarrow> Inl (TypeError ''Cannot read property of null'')))
                    else Inr ()
                | _ \<Rightarrow> Inl (AssertionError []))))"

fun ownPropertyNames :: "jsval \<Rightarrow> string list" where
  "ownPropertyNames (JObj ps) = map fst ps"
| "ownPropertyNames _ = []"

fun JSWrappedObject_assertEqual ::
    "node_assert \<Rightarrow> jsval \<Rightarrow> jsval \<Rightarrow> ApiMessage list \<Rightarrow> error + unit"
  and assertEqual_props ::
    "node_assert \<Rightarrow> jsval \<Rightarrow> (string \<times> jsval) list \<Rightarrow> ApiMessage list \<Rightarrow> error + unit"
where
  "JSWrappedObject_assertEqual A lifted json apimessages =
     (if typeof json \<noteq> ''object'' then
        (if assert_equal A lifted json then Inr () else Inl (AssertionError []))
      else
        (case deeper_ArrayBuffer json of
           Inl e \<Rightarrow> Inl e
         | Inr True \<Rightarrow>
             (case getprop lifted ''data'' of
                Inl e \<Rightarrow> Inl e
              | Inr d \<Rightarrow>
                  if \<not> instanceof_ArrayBuffer d then Inl (Error ''not of type ArrayBuffer'')
                  else
                    (case json of
                       JObj ps \<Rightarrow>
                         if map fst ps \<noteq> ownPropertyNames lifted then Inl (AssertionError [])
                         else assertEqual_props A lifted ps apimessages
                     | _ \<Rightarrow> Inr ()))
         | Inr False \<Rightarrow>
             (case lifted of
                Closure fn \<Rightarrow> Closure_assertEqual fn json apimessages
              | _ \<Rightarrow>
                  (case getprop json ''_type'' of
                     Inl e \<Rightarrow> Inl e
                   | Inr t \<Rightarrow>
                       if t \<noteq> JStr ''wrapped_js_object'' then
                         (if assert_deepEqual A lifted json then Inr ()
                          else Inl (AssertionError []))
                       else
                         (case getprop json ''wrapped_type'' of
                            Inl e \<Rightarrow> Inl e
                          | Inr w \<Rightarrow>
                              if w = JStr ''ArrayBuffer'' then
                                (case bufToArr lifted of
                                   Inl e \<Rightarrow> Inl e
                                 | Inr arr \<Rightarrow>
                                     (case getprop json ''value'' of
                                        Inl e \<Rightarrow> Inl e
                                      | Inr v \<Rightarrow>
                                          if assert_deepEqual A arr v then Inr ()
                                          else Inl (AssertionError [])))
                              else Inl (Error ''Can't compare ''))))))"
| "assertEqual_props A lifted [] apimessages = Inr ()"
| "assertEqual_props A lifted ((k, v) # ps) apimessages =
     (case getprop lifted k of
        Inl e \<Rightarrow> Inl e
      | Inr l \<Rightarrow>
          (case JSWrappedObject_assertEqual A l v apimessages of
             Inl e \<Rightarrow> Inl e
           | Inr _ \<Rightarrow> assertEqual_props A lifted ps apimessages))"

text \<open>
  \<^verbatim>\<open>Arguments.prototype.assertEqual\<close>: the lengths first, then the loop over the
  positions \<^verbatim>\<open>i\<close> of \<^verbatim>\<open>json.args\<close>.
\<close>

fun assertEqual_args ::
  "node_assert \<Rightarrow> jsval list \<Rightarrow> jsval list \<Rightarrow> ApiMessage list \<Rightarrow> error + unit" where
  "assertEqual_args A (a # as) (j # js) apimessages =
     (case JSWrappedObject_assertEqual A a j apimessages of
        Inl e \<Rightarrow> Inl e
      | Inr _ \<Rightarrow> assertEqual_args A as js apimessages)"
| "assertEqual_args A _ _ apimessages = Inr ()"

definition Arguments_assertEqual ::
  "node_assert \<Rightarrow> jsval list \<Rightarrow> jsval list \<Rightarrow> ApiMessage list \<Rightarrow> error + unit" where
  "Arguments_assertEqual A this_args json_args apimessages =
     (if length json_args \<noteq> length this_args then Inl (AssertionError [])
      else assertEqual_args A this_args json_args apimessages)"

subsection \<open>The interaction log\<close>

text \<open>
  The events of a serialized log. The \<^verbatim>\<open>_type\<close> tag of a node is the constructor:
  \<^verbatim>\<open>{_type: 'api_message', name, args: {_type: 'arguments', args}}\<close>,
  \<^verbatim>\<open>{_type: 'api_message_return', from_api_message, value}\<close> with \<^verbatim>\<open>value\<close> the node of
  the return value, and \<^verbatim>\<open>{_type: 'closure_call', closure, args: {_type: 'arguments',
  args}}\<close> with \<^verbatim>\<open>closure\<close> the node of the callback reference.
\<close>

datatype event =
    is_api_message: api_message string "jsval list"
  | is_api_message_return: api_message_return (from_api_message: nat) jsval
  | is_closure_call: closure_call jsval "jsval list"

definition ApiMessage_assertEqual ::
  "node_assert \<Rightarrow> ApiMessage \<Rightarrow> event \<Rightarrow> ApiMessage list \<Rightarrow> error + unit" where
  "ApiMessage_assertEqual A this serialized apimessages =
     (case serialized of
        api_message nm json_args \<Rightarrow>
          if nm \<noteq> am_name this then Inl (AssertionError ''Latest: '')
          else Arguments_assertEqual A (am_args this) json_args apimessages
      | _ \<Rightarrow> Inl (AssertionError []))"

text \<open>\<^verbatim>\<open>ReturnValue\<close>: \<^verbatim>\<open>serialize\<close> wraps the value into a node, \<^verbatim>\<open>deserialize\<close>
  builds \<^verbatim>\<open>new ReturnValue(json)\<close> from the node; the result is the \<^verbatim>\<open>value\<close> field of
  the object built.\<close>

definition ReturnValue_serialize :: "jsval \<Rightarrow> jsval" where
  "ReturnValue_serialize v = JObj [(''_type'', JStr ''return_value''), (''value'', v)]"

definition ReturnValue_deserialize :: "jsval \<Rightarrow> error + jsval" where
  "ReturnValue_deserialize json =
     (case jt json ''return_value'' of Inl e \<Rightarrow> Inl e | Inr _ \<Rightarrow> Inr json)"

text \<open>
  \<^verbatim>\<open>ApiMessageReturn.deserialize\<close>: the api message at \<^verbatim>\<open>from_api_message\<close>, given by
  its position, and the value.
\<close>

definition ApiMessageReturn_deserialize ::
  "ApiMessage list \<Rightarrow> event \<Rightarrow> error + (nat \<times> jsval)" where
  "ApiMessageReturn_deserialize apimessages json =
     (case json of
        api_message_return i v \<Rightarrow>
          (case ReturnValue_deserialize v of
             Inl e \<Rightarrow> Inl e
           | Inr val \<Rightarrow>
               if i < length apimessages then Inr (i, val)
               else Inl (Error ''undefined not of type ApiMessage''))
      | _ \<Rightarrow> Inl (Error ''should be a api_message_return''))"

fun deserialize_all :: "ApiMessage list \<Rightarrow> jsval list \<Rightarrow> error + jsval list" where
  "deserialize_all apimessages [] = Inr []"
| "deserialize_all apimessages (j # js) =
     (case JSWrappedObject_deserialize apimessages j of
        Inl e \<Rightarrow> Inl e
      | Inr v \<Rightarrow>
          (case deserialize_all apimessages js of
             Inl e \<Rightarrow> Inl e
           | Inr vs \<Rightarrow> Inr (v # vs)))"

definition Arguments_deserialize :: "ApiMessage list \<Rightarrow> jsval list \<Rightarrow> error + jsval list" where
  "Arguments_deserialize apimessages json_args =
     (case deserialize_all apimessages json_args of
        Inl e \<Rightarrow> Inl e
      | Inr vs \<Rightarrow> Inr (Arguments vs))"

text \<open>
  \<^verbatim>\<open>ClosureCall.deserialize\<close>: the function to call and its arguments. The constructor
  refuses a callback that is not a closure.
\<close>

definition ClosureCall_deserialize ::
  "ApiMessage list \<Rightarrow> event \<Rightarrow> error + (nat \<times> jsval list)" where
  "ClosureCall_deserialize apimessages json =
     (case json of
        closure_call c json_args \<Rightarrow>
          (case Closure_deserialize apimessages c of
             Inl e \<Rightarrow> Inl e
           | Inr cl \<Rightarrow>
               (case Arguments_deserialize apimessages json_args of
                  Inl e \<Rightarrow> Inl e
                | Inr as \<Rightarrow>
                    (case cl of
                       Closure fn \<Rightarrow> Inr (fn, as)
                     | _ \<Rightarrow> Inl (Error ''not of type Closure''))))
      | _ \<Rightarrow> Inl (Error ''should be a closure_call''))"

subsection \<open>The sanity check of a log\<close>

text \<open>
  An entry of the array \<^verbatim>\<open>calls\<close> is an event of the log or the string
  \<^verbatim>\<open>'returned'\<close>. Both \<^verbatim>\<open>returns\<close> and \<^verbatim>\<open>calls\<close> are filtered with
  \<^verbatim>\<open>l._type == 'api_message_return'\<close>.
\<close>

datatype slot = Recorded event | Returned

fun mark_returns :: "event list \<Rightarrow> slot list \<Rightarrow> error + slot list" where
  "mark_returns [] calls = Inr calls"
| "mark_returns (r # rs) calls =
     (if \<not> from_api_message r < length calls then Inl (Error ''Returned from non-called:'')
      else if calls ! from_api_message r = Returned then
        Inl (Error ''Second return from same call:'')
      else mark_returns rs (calls[from_api_message r := Returned]))"

definition sanityCheckLog :: "event list \<Rightarrow> error + unit" where
  "sanityCheckLog jsonLog =
     (let returns = filter is_api_message_return jsonLog;
          calls = map Recorded (filter is_api_message_return jsonLog)
      in case mark_returns returns calls of
           Inl e \<Rightarrow> Inl e
         | Inr calls' \<Rightarrow>
             if list_all (\<lambda>c. c = Returned) calls' then Inr ()
             else Inl (Error ''Method probably raised an error:''))"

subsection \<open>The checker\<close>

text \<open>
  The state of a \<^verbatim>\<open>Checker\<close>: the residual log \<^verbatim>\<open>serialLog\<close>, the calls replayed so far
  \<^verbatim>\<open>runMessageLog\<close> and the handle \<^verbatim>\<open>next\<close> of the deferred task. The scheduler is known
  by what its \<^verbatim>\<open>setTimeout\<close> returns (\<open>scheduler\<close>) and by the number of tasks it holds
  that have not run yet (\<open>pending\<close>). The rest of the record is the state of the program
  under test.
\<close>

record Checker =
  serialLog :: "event list"
  runMessageLog :: "ApiMessage list"
  next_timeout :: jsval
  methods :: "string list"
  scheduler :: jsval
  pending :: nat

text \<open>
  The platform's \<^verbatim>\<open>setTimeout\<close>, the default scheduler, returns a positive integer or a
  timer object.
\<close>

definition platform_setTimeout :: jsval where
  "platform_setTimeout = JNum 1"

text \<open>
  \<^verbatim>\<open>new Checker(serialLog, methods, scheduler)\<close>; \<open>sched\<close> is \<open>None\<close> when no scheduler
  is given and \<open>p\<close> is the state of the program under test.
\<close>

definition Checker_new ::
  "event list \<Rightarrow> string list \<Rightarrow> jsval option \<Rightarrow> 'p \<Rightarrow> error + 'p Checker_scheme" where
  "Checker_new log ms sched p =
     (case sanityCheckLog log of
        Inl e \<Rightarrow> Inl e
      | Inr _ \<Rightarrow>
          Inr \<lparr>serialLog = log, runMessageLog = [], next_timeout = JNull, methods = ms,
               scheduler = (case sched of None \<Rightarrow> platform_setTimeout | Some h \<Rightarrow> h),
               pending = 0, \<dots> = p\<rparr>)"

definition Checker_done :: "'p Checker_scheme \<Rightarrow> error + unit" where
  "Checker_done self = (if serialLog self = [] then Inr () else Inl (AssertionError []))"

text \<open>
  A live function of the program under test is called with arguments in a state of the
  checker and of the program; it returns or throws, and leaves a state. The api calls
  that the function makes itself are part of this effect.
\<close>

type_synonym 'p live =
  "nat \<Rightarrow> jsval list \<Rightarrow> 'p Checker_scheme \<Rightarrow> (error + jsval) \<times> 'p Checker_scheme"

definition scheduleWake :: "'p Checker_scheme \<Rightarrow> 'p Checker_scheme" where
  "scheduleWake self =
     (if truthy (next_timeout self) then self
      else self\<lparr>next_timeout := scheduler self, pending := Suc (pending self)\<rparr>)"

text \<open>The function deferred by \<^verbatim>\<open>scheduleWake\<close>, when the scheduler runs it.\<close>

definition wake :: "'p live \<Rightarrow> 'p Checker_scheme \<Rightarrow> (error + unit) \<times> 'p Checker_scheme" where
  "wake fns self0 =
     (let self = self0\<lparr>next_timeout := JNull\<rparr> in
      case serialLog self of
        [] \<Rightarrow> (Inr (), self)
      | ev # rest \<Rightarrow>
          if \<not> is_closure_call ev then (Inr (), self)
          else
            let self1 = self\<lparr>serialLog := rest\<rparr> in
            (case ClosureCall_deserialize (runMessageLog self1) ev of
               Inl e \<Rightarrow> (Inl e, self1)
             | Inr (fn, as) \<Rightarrow>
                 (case fns fn (raw as) self1 of
                    (Inl e, self2) \<Rightarrow> (Inl e, self2)
                  | (Inr _, self2) \<Rightarrow> (Inr (), scheduleWake self2))))"

text \<open>The scheduler runs one of the tasks it holds, if any.\<close>

definition run_deferred ::
  "'p live \<Rightarrow> 'p Checker_scheme \<Rightarrow> (error + unit) \<times> 'p Checker_scheme" where
  "run_deferred fns self =
     (if pending self = 0 then (Inr (), self)
      else wake fns (self\<lparr>pending := pending self - 1\<rparr>))"

text \<open>
  The loop of \<^verbatim>\<open>checkedMethod\<close> that emulates the api until the return of the call.
  Reading \<^verbatim>\<open>_type\<close> of the head of an empty log is a \<^verbatim>\<open>TypeError\<close>. The loop has no
  bound of its own, so its result is optional.
\<close>

partial_function (option) emulate ::
  "'p live \<Rightarrow> string \<Rightarrow> 'p Checker_scheme \<Rightarrow> ((error + unit) \<times> 'p Checker_scheme) option"
where
  "emulate fns name self =
     (case serialLog self of
        [] \<Rightarrow> Some (Inl (TypeError ''Cannot read property of undefined''), self)
      | sl # rest \<Rightarrow>
          if is_api_message_return sl then Some (Inr (), self)
          else
            let self1 = self\<lparr>serialLog := rest\<rparr> in
            (case ClosureCall_deserialize (runMessageLog self1) sl of
               Inl e \<Rightarrow> Some (Inl e, self1)
             | Inr (fn, as) \<Rightarrow>
                 (case fns fn (raw as) self1 of
                    (Inl e, self2) \<Rightarrow> Some (Inl e, self2)
                  | (Inr _, self2) \<Rightarrow>
                      if serialLog self2 = [] then
                        Some (Inl (AssertionError (''Api method '' @ name @ '' did not return'')),
                              self2)
                      else emulate fns name self2)))"

declare emulate.simps [code]

text \<open>
  \<^verbatim>\<open>checkedMethod\<close>, the function that \<^verbatim>\<open>wrapMethod(name)\<close> returns, called with
  \<open>arguments\<close>. The api messages of \<^verbatim>\<open>runMessageLog\<close> are distinct objects, pushed one
  by one, so \<^verbatim>\<open>retobj.apimessage === currentAm\<close> compares the position of the return's
  api message with the position at which \<^verbatim>\<open>currentAm\<close> was pushed.
\<close>

definition checkedMethod ::
  "node_assert \<Rightarrow> 'p live \<Rightarrow> string \<Rightarrow> jsval list \<Rightarrow> 'p Checker_scheme \<Rightarrow>
     ((error + jsval) \<times> 'p Checker_scheme) option" where
  "checkedMethod A fns name arguments self =
     (case serialLog self of
        [] \<Rightarrow> Some (Inl (AssertionError ''Method call not recorded''), self)
      | am # rest \<Rightarrow>
          let self1 = self\<lparr>serialLog := rest\<rparr>;
              currentAm = ApiMessage name (Arguments arguments);
              apimessages = runMessageLog self1
          in
          (case ApiMessage_assertEqual A currentAm am apimessages of
             Inl e \<Rightarrow> Some (Inl e, self1)
           | Inr _ \<Rightarrow>
               let self2 = self1\<lparr>runMessageLog := runMessageLog self1 @ [currentAm]\<rparr> in
               (case emulate fns name self2 of
                  None \<Rightarrow> None
                | Some (Inl e, self3) \<Rightarrow> Some (Inl e, self3)
                | Some (Inr _, self3) \<Rightarrow>
                    (case serialLog self3 of
                       [] \<Rightarrow> Some (Inl (TypeError ''Cannot read property of undefined''), self3)
                     | r # rest3 \<Rightarrow>
                         let self4 = self3\<lparr>serialLog := rest3\<rparr> in
                         (case ApiMessageReturn_deserialize (runMessageLog self4) r of
                            Inl e \<Rightarrow> Some (Inl e, self4)
                          | Inr (i, val) \<Rightarrow>
                              if i \<noteq> length apimessages then
                                Some (Inl (AssertionError []), self4)
                              else Some (Inr val, scheduleWake self4))))))"

subsection \<open>The recorder\<close>

text \<open>
  The log of a \<^verbatim>\<open>Recorder\<close> holds the objects themselves. An \<^verbatim>\<open>ApiMessageReturn\<close> refers to
  the api message of its call; the api messages of the log are distinct objects, so the
  reference is the position of that api message among the api messages of the log.
\<close>

datatype recorded =
    RApiMessage ApiMessage
  | RApiMessageReturn nat jsval
  | RClosureCall nat "jsval list"

record Recorder =
  Recorder_log :: "recorded list"
  Recorder_methods :: "string list"

definition Recorder_new :: "string list \<Rightarrow> 'p \<Rightarrow> 'p Recorder_scheme" where
  "Recorder_new ms p = \<lparr>Recorder_log = [], Recorder_methods = ms, \<dots> = p\<rparr>"

fun apiMessages_of :: "recorded list \<Rightarrow> ApiMessage list" where
  "apiMessages_of [] = []"
| "apiMessages_of (RApiMessage am # l) = am # apiMessages_of l"
| "apiMessages_of (_ # l) = apiMessages_of l"

definition apiMessages :: "'p Recorder_scheme \<Rightarrow> ApiMessage list" where
  "apiMessages self = apiMessages_of (Recorder_log self)"

text \<open>
  A method of the real api is called with arguments in a state of the recorder and of the
  program; it returns or throws. The callbacks among the arguments are wrapped, one
  wrapper for each function, so a wrapper is known by its function; what the wrappers
  append to the log when the method calls them is part of the effect of the method.
\<close>

type_synonym 'p real_api =
  "string \<Rightarrow> jsval list \<Rightarrow> 'p Recorder_scheme \<Rightarrow> (error + jsval) \<times> 'p Recorder_scheme"

text \<open>\<^verbatim>\<open>wrappedMethod\<close>, the function that \<^verbatim>\<open>Recorder.prototype.wrapMethod\<close> returns.\<close>

definition wrappedMethod ::
  "'p real_api \<Rightarrow> string \<Rightarrow> jsval list \<Rightarrow> 'p Recorder_scheme \<Rightarrow>
     (error + jsval) \<times> 'p Recorder_scheme" where
  "wrappedMethod api name args self =
     (let am = ApiMessage name (Arguments args);
          i = length (apiMessages self);
          self1 = self\<lparr>Recorder_log := Recorder_log self @ [RApiMessage am]\<rparr>
      in case api name args self1 of
           (Inl e, self2) \<Rightarrow> (Inl e, self2)
         | (Inr ret, self2) \<Rightarrow>
             (Inr ret,
              self2\<lparr>Recorder_log := Recorder_log self2 @ [RApiMessageReturn i ret]\<rparr>))"

text \<open>
  \<^verbatim>\<open>wrappedCallback\<close>, the wrapper of the function \<open>fn\<close> of the program: it appends
  the callback invocation to the log and calls \<open>fn\<close>, whose effect \<open>fns\<close> gives.
\<close>

definition wrappedCallback ::
  "(nat \<Rightarrow> jsval list \<Rightarrow> 'p Recorder_scheme \<Rightarrow> (error + jsval) \<times> 'p Recorder_scheme) \<Rightarrow>
     nat \<Rightarrow> jsval list \<Rightarrow> 'p Recorder_scheme \<Rightarrow> (error + jsval) \<times> 'p Recorder_scheme" where
  "wrappedCallback fns fn args self =
     fns fn args (self\<lparr>Recorder_log := Recorder_log self @ [RClosureCall fn (Arguments args)]\<rparr>)"

fun serialize_all :: "ApiMessage list \<Rightarrow> jsval list \<Rightarrow> error + jsval list" where
  "serialize_all apimessages [] = Inr []"
| "serialize_all apimessages (a # as) =
     (case JSWrappedObject_serialize apimessages a of
        Inl e \<Rightarrow> Inl e
      | Inr j \<Rightarrow>
          (case serialize_all apimessages as of
             Inl e \<Rightarrow> Inl e
           | Inr js \<Rightarrow> Inr (j # js)))"

text \<open>The \<^verbatim>\<open>serialize\<close> methods of the three kinds of events.\<close>

fun recorded_serialize :: "ApiMessage list \<Rightarrow> recorded \<Rightarrow> error + event" where
  "recorded_serialize apimessages (RApiMessage am) =
     (case serialize_all apimessages (am_args am) of
        Inl e \<Rightarrow> Inl e
      | Inr js \<Rightarrow> Inr (api_message (am_name am) js))"
| "recorded_serialize apimessages (RApiMessageReturn i v) =
     (if i < length apimessages then Inr (api_message_return i (ReturnValue_serialize v))
      else Inl (Error ''Returning a non-called apimessage''))"
| "recorded_serialize apimessages (RClosureCall fn as) =
     (case Closure_serialize fn apimessages of
        Inl e \<Rightarrow> Inl e
      | Inr c \<Rightarrow>
          (case serialize_all apimessages as of
             Inl e \<Rightarrow> Inl e
           | Inr js \<Rightarrow> Inr (closure_call c js)))"

fun serialize_log :: "ApiMessage list \<Rightarrow> recorded list \<Rightarrow> error + event list" where
  "serialize_log apimessages [] = Inr []"
| "serialize_log apimessages (l # ls) =
     (case recorded_serialize apimessages l of
        Inl e \<Rightarrow> Inl e
      | Inr j \<Rightarrow>
          (case serialize_log apimessages ls of
             Inl e \<Rightarrow> Inl e
           | Inr js \<Rightarrow> Inr (j # js)))"

text \<open>\<^verbatim>\<open>Recorder.prototype.checker\<close>; \<open>p\<close> is the state of the program that will be
  checked.\<close>

definition Recorder_checker :: "'q Recorder_scheme \<Rightarrow> 'p \<Rightarrow> error + 'p Checker_scheme" where
  "Recorder_checker self p =
     (let am = apiMessages self in
      case serialize_log am (Recorder_log self) of
        Inl e \<Rightarrow> Inl e
      | Inr log \<Rightarrow> Checker_new log (Recorder_methods self) None p)"

subsection \<open>Derived notions\<close>

text \<open>Encoding a value against one context and decoding the result against another.\<close>

definition round_trip :: "ApiMessage list \<Rightarrow> ApiMessage list \<Rightarrow> jsval \<Rightarrow> error + jsval" where
  "round_trip ctx ctx' v =
     (case JSWrappedObject_serialize ctx v of
        Inl e \<Rightarrow> Inl e
      | Inr json \<Rightarrow> JSWrappedObject_deserialize ctx' json)"

text \<open>A call that is given two callbacks.\<close>

definition two_callbacks :: ApiMessage where
  "two_callbacks = ApiMessage ''connect'' (Arguments [JFunction 1, JFunction 2])"

text \<open>A call that is given one callback.\<close>

definition addListener :: ApiMessage where
  "addListener = ApiMessage ''event.addListener'' (Arguments [JFunction 1])"

text \<open>
  On two strings, two numbers or two booleans both comparisons of \<^verbatim>\<open>assert\<close> are
  equality; \<open>same_value\<close> stands for them in the examples, which compare such values
  only. The functions of \<open>no_callbacks\<close> make no api call and return \<^verbatim>\<open>undefined\<close>.
\<close>

definition same_value :: node_assert where
  "same_value = \<lparr>assert_equal = (=), assert_deepEqual = (=)\<rparr>"

definition no_callbacks :: "'p live" where
  "no_callbacks fn as self = (Inr JUndefined, self)"

text \<open>The state of a new checker of the log \<open>log\<close>, with the default scheduler and the
  state \<open>p\<close> of the program.\<close>

definition new_checker :: "event list \<Rightarrow> 'p \<Rightarrow> 'p Checker_scheme" where
  "new_checker log p =
     \<lparr>serialLog = log, runMessageLog = [], next_timeout = JNull, methods = [],
      scheduler = platform_setTimeout, pending = 0, \<dots> = p\<rparr>"

text \<open>
  Running recorded callback invocations one after the other: each event is taken from the
  residual log, then the live function is applied to the raw arguments.
\<close>

fun replay_callbacks ::
  "'p live \<Rightarrow> (nat \<times> jsval list) list \<Rightarrow> 'p Checker_scheme \<Rightarrow> 'p Checker_scheme" where
  "replay_callbacks fns [] self = self"
| "replay_callbacks fns ((fn, as) # calls) self =
     replay_callbacks fns calls (snd (fns fn (raw as) (self\<lparr>serialLog := tl (serialLog self)\<rparr>)))"

text \<open>
  Live functions that return and make no api call: they leave the logs of the checker as
  they are.
\<close>

definition no_api_call :: "'p live \<Rightarrow> bool" where
  "no_api_call fns =
     (\<forall>fn as self. \<exists>r self'. fns fn as self = (Inr r, self') \<and>
        serialLog self' = serialLog self \<and> runMessageLog self' = runMessageLog self)"

text \<open>A program that keeps the list of the calls made to its functions.\<close>

definition tracing :: "(nat \<times> jsval list) list live" where
  "tracing fn as self = (Inr JUndefined, self\<lparr>Checker.more := Checker.more self @ [(fn, as)]\<rparr>)"

text \<open>
  The states of a checker that a program can reach: the state that the constructor
  leaves, the state after a call of a method of the api, and the state after the scheduler
  has run a deferred task. \<open>sched\<close> is the scheduler given to the constructor.
\<close>

inductive reachable ::
  "node_assert \<Rightarrow> 'p live \<Rightarrow> jsval option \<Rightarrow> 'p Checker_scheme \<Rightarrow> bool"
  for A :: node_assert and fns :: "'p live" and sched :: "jsval option"
where
  constructed:
    "Checker_new log ms sched p = Inr self \<Longrightarrow> reachable A fns sched self"
| called:
    "reachable A fns sched self \<Longrightarrow>
     checkedMethod A fns name arguments self = Some (res, self') \<Longrightarrow>
     reachable A fns sched self'"
| deferred_run:
    "reachable A fns sched self \<Longrightarrow> run_deferred fns self = (res, self') \<Longrightarrow>
     reachable A fns sched self'"

text \<open>
  The scheduler returns a handle that counts as true, and it holds one task exactly when
  \<^verbatim>\<open>next\<close> is such a handle.
\<close>

definition one_pending :: "'p Checker_scheme \<Rightarrow> bool" where
  "one_pending self =
     (truthy (scheduler self) \<and>
      pending self = (if truthy (next_timeout self) then 1 else 0))"

text \<open>The live functions keep this, as functions that act on the checker through its api
  do.\<close>

definition keeps_one_pending :: "'p live \<Rightarrow> bool" where
  "keeps_one_pending fns =
     (\<forall>fn as self. one_pending self \<longrightarrow> one_pending (snd (fns fn as self)))"

text \<open>The handle that the scheduler given to the constructor returns.\<close>

definition handle_of :: "jsval option \<Rightarrow> jsval" where
  "handle_of sched = (case sched of None \<Rightarrow> platform_setTimeout | Some h \<Rightarrow> h)"

text \<open>A log of two calls that return at once.\<close>

definition two_calls_log :: "event list" where
  "two_calls_log =
     [api_message ''bye'' [], api_message_return 0 (ReturnValue_serialize JUndefined),
      api_message ''bye'' [], api_message_return 1 (ReturnValue_serialize JUndefined)]"

text \<open>
  The state of the checker of \<open>two_calls_log\<close>, built with a scheduler whose
  \<^verbatim>\<open>setTimeout\<close> returns \<^verbatim>\<open>undefined\<close>, after the program has made the two calls.
\<close>

definition after_two_calls :: Checker where
  "after_two_calls =
     \<lparr>serialLog = [], runMessageLog = [ApiMessage ''bye'' [], ApiMessage ''bye'' []],
      next_timeout = JUndefined, methods = [], scheduler = JUndefined, pending = 2\<rparr>"

text \<open>An api whose methods throw.\<close>

definition throwing_api :: "'p real_api" where
  "throwing_api name args self = (Inl (Error []), self)"

text \<open>
  The log of the test \<^verbatim>\<open>#recorder\<close>: the callback of \<^verbatim>\<open>hello\<close> is invoked before
  \<^verbatim>\<open>hello\<close> returns, and calls \<^verbatim>\<open>bye\<close>.
\<close>

definition sync_log :: "event list" where
  "sync_log =
     [api_message ''hello'' [JStr ''chris'', closure_json 0],
      closure_call (closure_json 0) [JStr ''Hello! chris''],
      api_message ''bye'' [JStr ''chris''],
      api_message_return 1 (ReturnValue_serialize JUndefined),
      api_message_return 0 (ReturnValue_serialize JUndefined)]"

text \<open>
  The values that the codec leaves alone inside an object, apart from the buffers: every
  value but \<^verbatim>\<open>null\<close>, an object and a closure. \<open>encoded v\<close> is the encoding of such a
  value: the tagged object of a buffer, and the value itself otherwise.
\<close>

fun flat :: "jsval \<Rightarrow> bool" where
  "flat JNull = False"
| "flat (JObj _) = False"
| "flat (Closure _) = False"
| "flat _ = True"

fun encoded :: "jsval \<Rightarrow> jsval" where
  "encoded (ArrayBuffer bs) = wrapped_js_object (JArr (map (\<lambda>b. JNum (uint b)) bs))"
| "encoded v = v"

text \<open>An object with two buffers, the first in its \<^verbatim>\<open>data\<close> field.\<close>

definition packet :: jsval where
  "packet =
     JObj [(''connectionId'', JNum 1), (''data'', ArrayBuffer [1, 2, 255]),
           (''more'', ArrayBuffer [7]), (''tags'', JArr [JNull, JStr ''a''])]"









text \<open>
  A function of the program under test calls a method of the api as \<open>api_call\<close>, with
  callbacks \<open>fns\<close> of its own; a call that does not return is given as an error that
  leaves the state as it is. \<open>then_do g h\<close> runs \<open>g\<close>, then \<open>h\<close> on the result of \<open>g\<close>,
  which may be an exception that \<open>h\<close> handles.
\<close>

definition api_call ::
  "node_assert \<Rightarrow> 'p live \<Rightarrow> string \<Rightarrow> jsval list \<Rightarrow> 'p Checker_scheme \<Rightarrow>
     (error + jsval) \<times> 'p Checker_scheme" where
  "api_call A fns name arguments self =
     (case checkedMethod A fns name arguments self of
        Some r \<Rightarrow> r
      | None \<Rightarrow> (Inl (Error ''the call does not return''), self))"

definition then_do ::
  "('s \<Rightarrow> 'a \<times> 's) \<Rightarrow> ('a \<Rightarrow> 's \<Rightarrow> 'b \<times> 's) \<Rightarrow> 's \<Rightarrow> 'b \<times> 's" where
  "then_do g h self = (case g self of (r, self') \<Rightarrow> h r self')"

text \<open>
  A call whose callback, given by the call itself, is invoked before the call returns,
  and then the callback of the call before it, with the callback of this call as argument.
\<close>

definition greet_log :: "event list" where
  "greet_log =
     [api_message ''greet'' [JStr ''x'', closure_json 1],
      closure_call (closure_json 1)
        [JStr ''hello x'', wrapped_js_object (JArr [JNum 1, JNum 2])],
      closure_call (closure_json 0) [closure_json 1],
      api_message_return 1 (ReturnValue_serialize JUndefined)]"

text \<open>
  A program whose functions keep the list of the calls made to them and call
  \<^verbatim>\<open>api.bye()\<close> inside \<^verbatim>\<open>try\<close> and an empty \<^verbatim>\<open>catch\<close>; and a call whose callback is
  invoked twice before the call returns.
\<close>

definition swallowing :: "(nat \<times> jsval list) list live" where
  "swallowing fn as =
     then_do (tracing fn as)
       (\<lambda>_. then_do (api_call same_value no_callbacks ''bye'' [])
          (\<lambda>_ self. (Inr JUndefined, self)))"

definition twice_log :: "event list" where
  "twice_log =
     [api_message ''greet'' [closure_json 0],
      closure_call (closure_json 0) [JNum 1],
      closure_call (closure_json 0) [JNum 2],
      api_message_return 0 (ReturnValue_serialize JUndefined)]"

text \<open>
  The functions of a program that acts on the checker through its api only: a function
  that changes nothing but the state of the program itself; a call of a method of the api,
  with callbacks that are such functions; and one such function after another.
\<close>

inductive through_api ::
  "node_assert \<Rightarrow> ('p Checker_scheme \<Rightarrow> (error + jsval) \<times> 'p Checker_scheme) \<Rightarrow> bool"
  for A :: node_assert
where
  own: "(\<And>self. \<exists>r p. g self = (r, self\<lparr>Checker.more := p\<rparr>)) \<Longrightarrow> through_api A g"
| call: "(\<And>fn as. through_api A (fns fn as)) \<Longrightarrow> through_api A (api_call A fns name arguments)"
| seq: "through_api A g \<Longrightarrow> (\<And>r. through_api A (h r)) \<Longrightarrow> through_api A (then_do g h)"

text \<open>
  A program whose function 7 calls \<^verbatim>\<open>api.bye('chris')\<close> and whose other functions do
  nothing. In the log of \<open>async_log\<close> the program calls \<^verbatim>\<open>listen\<close> and \<^verbatim>\<open>hello\<close>,
  each with a callback, and the callback of \<^verbatim>\<open>hello\<close> is invoked after \<^verbatim>\<open>hello\<close> has
  returned.
\<close>

definition calls_bye :: "unit live" where
  "calls_bye fn as =
     (if fn = 7 then
        then_do (api_call same_value no_callbacks ''bye'' [JStr ''chris''])
          (\<lambda>r self. (case r of Inl e \<Rightarrow> Inl e | Inr _ \<Rightarrow> Inr JUndefined, self))
      else (\<lambda>self. (Inr JUndefined, self)))"

definition async_log :: "event list" where
  "async_log =
     [api_message ''listen'' [closure_json 0],
      api_message_return 0 (ReturnValue_serialize JUndefined),
      api_message ''hello'' [JStr ''chris'', closure_json 1],
      api_message_return 1 (ReturnValue_serialize JUndefined),
      closure_call (closure_json 1) [JStr ''Hello! chris''],
      api_message ''bye'' [JStr ''chris''],
      api_message_return 2 (ReturnValue_serialize JUndefined)]"

text \<open>
  The states of the checker of \<open>async_log\<close> after the program has called \<^verbatim>\<open>listen\<close> with
  the function 5, then \<^verbatim>\<open>hello\<close> with the function 7, and after the deferred task has
  run the callback.
\<close>

definition after_listen :: Checker where
  "after_listen =
     (new_checker (drop 2 async_log) ())
       \<lparr>runMessageLog := [ApiMessage ''listen'' [Closure 5]],
        next_timeout := platform_setTimeout, pending := 1\<rparr>"

definition after_hello :: Checker where
  "after_hello =
     (new_checker (drop 4 async_log) ())
       \<lparr>runMessageLog := [ApiMessage ''listen'' [Closure 5],
                          ApiMessage ''hello'' [JStr ''chris'', Closure 7]],
        next_timeout := platform_setTimeout, pending := 1\<rparr>"

definition after_callback :: Checker where
  "after_callback =
     (new_checker [] ())
       \<lparr>runMessageLog := [ApiMessage ''listen'' [Closure 5],
                          ApiMessage ''hello'' [JStr ''chris'', Closure 7],
                          ApiMessage ''bye'' [JStr ''chris'']],
        next_timeout := platform_setTimeout, pending := 1\<rparr>"

text \<open>The state of the checker of \<open>sync_log\<close> after the program has called
  \<^verbatim>\<open>hello\<close> with the function 7.\<close>

definition after_replay :: Checker where
  "after_replay =
     (new_checker [] ())
       \<lparr>runMessageLog := [ApiMessage ''hello'' [JStr ''chris'', Closure 7],
                          ApiMessage ''bye'' [JStr ''chris'']],
        next_timeout := platform_setTimeout, pending := 1\<rparr>"

section \<open>Properties\<close>

subsection \<open>The codec of byte buffers\<close>

lemma toUint8s_bufToArr: "toUint8s (map (\<lambda>b. JNum (uint b)) bs) = Inr bs"
  by (induction bs) simp_all

lemma serialize_buffer:
  "JSWrappedObject_serialize ctx (ArrayBuffer bs) =
     Inr (wrapped_js_object (JArr (map (\<lambda>b. JNum (uint b)) bs)))"
  by simp

lemma deserialize_buffer:
  "JSWrappedObject_deserialize ctx (wrapped_js_object (JArr (map (\<lambda>b. JNum (uint b)) bs))) =
     Inr (ArrayBuffer bs)"
  by (simp add: wrapped_js_object_def deeper_ArrayBuffer_def toUint8s_bufToArr)

lemma serialize_flat: "flat v \<Longrightarrow> JSWrappedObject_serialize ctx v = Inr (encoded v)"
  by (cases v) simp_all

lemma deserialize_encoded: "flat v \<Longrightarrow> JSWrappedObject_deserialize ctx (encoded v) = Inr v"
proof (cases v)
  case (ArrayBuffer bs)
  then show ?thesis by (simp only: encoded.simps deserialize_buffer)
qed (simp_all add: deeper_ArrayBuffer_def)

lemma serialize_props_flat:
  "\<forall>(k, v)\<in>set ps. flat v \<Longrightarrow>
     serialize_props ctx ps = Inr (map (\<lambda>(k, v). (k, encoded v)) ps)"
  by (induction ps)
    (auto simp: serialize_flat simp del: JSWrappedObject_serialize.simps)

lemma deserialize_props_encoded:
  "\<forall>(k, v)\<in>set ps. flat v \<Longrightarrow>
     deserialize_props (map (\<lambda>(k, v). (k, encoded v)) ps) = Inr ps"
  by (induction ps)
    (auto simp: deserialize_encoded simp del: JSWrappedObject_deserialize.simps)

lemma map_of_encoded:
  "map_of (map (\<lambda>(k, v). (k, encoded v)) ps) k = map_option encoded (map_of ps k)"
  by (induction ps) auto

lemma serialize_data_object:
  assumes "map_of ps ''data'' = Some (ArrayBuffer bs)" and "\<forall>(k, v)\<in>set ps. flat v"
  shows "JSWrappedObject_serialize ctx (JObj ps) = Inr (JObj (map (\<lambda>(k, v). (k, encoded v)) ps))"
  using assms by (simp add: serialize_props_flat)

lemma deserialize_data_object:
  assumes "map_of ps ''data'' = Some (ArrayBuffer bs)" and "\<forall>(k, v)\<in>set ps. flat v"
    and "map_of ps ''_type'' \<noteq> Some (JStr ''closure'')"
  shows "JSWrappedObject_deserialize ctx (JObj (map (\<lambda>(k, v). (k, encoded v)) ps)) =
           Inr (JObj ps)"
proof -
  let ?js = "map (\<lambda>(k, v). (k, encoded v)) ps"
  have d: "getprop (JObj ?js) ''data'' =
      Inr (wrapped_js_object (JArr (map (\<lambda>b. JNum (uint b)) bs)))"
    using assms(1) by (simp add: map_of_encoded)
  have deep: "deeper_ArrayBuffer (JObj ?js) = Inr True"
    unfolding deeper_ArrayBuffer_def d by (simp add: wrapped_js_object_def)
  have t: "\<exists>t. getprop (JObj ?js) ''_type'' = Inr t \<and> t \<noteq> JStr ''closure''"
  proof (cases "map_of ps ''_type''")
    case None
    then show ?thesis by (simp add: map_of_encoded)
  next
    case (Some v)
    with assms(3) have "v \<noteq> JStr ''closure''" by simp
    then have "encoded v \<noteq> JStr ''closure''"
      by (cases v) (simp_all add: wrapped_js_object_def)
    with Some show ?thesis by (simp add: map_of_encoded)
  qed
  then obtain t where t: "getprop (JObj ?js) ''_type'' = Inr t" "t \<noteq> JStr ''closure''" by blast
  show ?thesis
    using t deep deserialize_props_encoded [OF assms(2)]
    by (subst JSWrappedObject_deserialize.simps) simp
qed

lemma serialize_no_data:
  "map_of ps ''data'' = None \<Longrightarrow> JSWrappedObject_serialize ctx (JObj ps) = Inr (JObj ps)"
  by simp

text \<open>
  Claim C7, amended. A buffer of any bytes \<open>bs\<close> is encoded as the tagged object
  \<^verbatim>\<open>{_type: 'wrapped_js_object', wrapped_type: 'ArrayBuffer', value}\<close> whose \<^verbatim>\<open>value\<close> is the
  array of the bytes as numbers, and decoding that object gives the buffer of the same
  bytes back. Inside an object the codec looks at the field \<^verbatim>\<open>data\<close> only: when \<^verbatim>\<open>data\<close>
  holds a buffer and every field holds a buffer or a value other than \<^verbatim>\<open>null\<close>, an object
  and a callback, every buffer of the object is encoded in place as such a tagged object
  and the object comes back unchanged from encoding and decoding; an object with no field
  \<^verbatim>\<open>data\<close> is returned as it is, its buffers not encoded.
\<close>

theorem buffer_round_trip:
  "JSWrappedObject_serialize ctx (ArrayBuffer bs) =
     Inr (wrapped_js_object (JArr (map (\<lambda>b. JNum (uint b)) bs)))
   \<and> round_trip ctx ctx' (ArrayBuffer bs) = Inr (ArrayBuffer bs)
   \<and> (map_of ps ''data'' = Some (ArrayBuffer bs) \<and> (\<forall>(k, v)\<in>set ps. flat v) \<and>
       map_of ps ''_type'' \<noteq> Some (JStr ''closure'') \<longrightarrow>
        JSWrappedObject_serialize ctx (JObj ps) =
          Inr (JObj (map (\<lambda>(k, v). (k, encoded v)) ps)) \<and>
        round_trip ctx ctx' (JObj ps) = Inr (JObj ps))
   \<and> (map_of qs ''data'' = None \<longrightarrow>
        JSWrappedObject_serialize ctx (JObj qs) = Inr (JObj qs))"
proof (intro conjI impI)
  show "JSWrappedObject_serialize ctx (ArrayBuffer bs) =
     Inr (wrapped_js_object (JArr (map (\<lambda>b. JNum (uint b)) bs)))"
    by (rule serialize_buffer)
  then show "round_trip ctx ctx' (ArrayBuffer bs) = Inr (ArrayBuffer bs)"
    using deserialize_buffer [of ctx' bs] by (simp only: round_trip_def sum.case)
next
  assume a: "map_of ps ''data'' = Some (ArrayBuffer bs) \<and> (\<forall>(k, v)\<in>set ps. flat v) \<and>
       map_of ps ''_type'' \<noteq> Some (JStr ''closure'')"
  then show s: "JSWrappedObject_serialize ctx (JObj ps) =
          Inr (JObj (map (\<lambda>(k, v). (k, encoded v)) ps))"
    using serialize_data_object by blast
  from a have "JSWrappedObject_deserialize ctx' (JObj (map (\<lambda>(k, v). (k, encoded v)) ps)) =
           Inr (JObj ps)"
    using deserialize_data_object by blast
  with s show "round_trip ctx ctx' (JObj ps) = Inr (JObj ps)"
    by (simp only: round_trip_def sum.case)
next
  assume "map_of qs ''data'' = None"
  then show "JSWrappedObject_serialize ctx (JObj qs) = Inr (JObj qs)"
    by (rule serialize_no_data)
qed

theorem buffer_round_trip_witness:
  "JSWrappedObject_serialize [] packet =
     Inr (JObj [(''connectionId'', JNum 1),
                (''data'', wrapped_js_object (JArr [JNum 1, JNum 2, JNum 255])),
                (''more'', wrapped_js_object (JArr [JNum 7])),
                (''tags'', JArr [JNull, JStr ''a''])])
   \<and> round_trip [] [] packet = Inr packet
   \<and> JSWrappedObject_serialize [] (JObj [(''payload'', ArrayBuffer [1, 2, 255])]) =
       Inr (JObj [(''payload'', ArrayBuffer [1, 2, 255])])"
proof -
  let ?ps = "[(''connectionId'', JNum 1), (''data'', ArrayBuffer [1, 2, 255]),
           (''more'', ArrayBuffer [7]), (''tags'', JArr [JNull, JStr ''a''])]"
  have h: "map_of ?ps ''data'' = Some (ArrayBuffer [1, 2, 255]) \<and> (\<forall>(k, v)\<in>set ?ps. flat v) \<and>
       map_of ?ps ''_type'' \<noteq> Some (JStr ''closure'')"
    by simp
  have n: "map_of [(''payload'', ArrayBuffer [1, 2, 255])] ''data'' = None" by simp
  from buffer_round_trip [of "[]" "[1, 2, 255]" "[]" ?ps "[(''payload'', ArrayBuffer [1, 2, 255])]"] h n
  have "JSWrappedObject_serialize [] (JObj ?ps) =
          Inr (JObj (map (\<lambda>(k, v). (k, encoded v)) ?ps))"
    and "round_trip [] [] (JObj ?ps) = Inr (JObj ?ps)"
    and "JSWrappedObject_serialize [] (JObj [(''payload'', ArrayBuffer [1, 2, 255])]) =
       Inr (JObj [(''payload'', ArrayBuffer [1, 2, 255])])"
    by blast+
  then show ?thesis by (simp add: packet_def)
qed

text \<open>
  The claim as it was stated fails on an object whose field holds a buffer: with a second
  field that is \<^verbatim>\<open>null\<close> the encoding throws, and in a field that is not named
  \<^verbatim>\<open>data\<close> the buffer is not encoded.
\<close>

theorem nested_buffer_counterexample:
  "round_trip [] [] (JObj [(''data'', ArrayBuffer [1, 2, 3]), (''x'', JNull)]) =
     Inl (TypeError ''Cannot read property of null'')
   \<and> JSWrappedObject_serialize [] (JObj [(''payload'', ArrayBuffer [1, 2, 3])]) =
     Inr (JObj [(''payload'', ArrayBuffer [1, 2, 3])])"
  by (simp add: round_trip_def)

subsection \<open>Callback references\<close>

lemma closure_in_args: "closure am = Closure fn \<Longrightarrow> Closure fn \<in> set (am_args am)"
proof -
  assume a: "closure am = Closure fn"
  then obtain cs where "closures (am_args am) = Closure fn # cs"
    by (auto simp: closure_def split: list.splits)
  then have "Closure fn \<in> set (filter instanceof_Closure (am_args am))"
    by (simp add: closures_def)
  then show ?thesis by simp
qed

lemma serialize_loop_Inr:
  "serialize_loop fn i ams = Inr j \<Longrightarrow>
     \<exists>n<length ams. j = closure_json (i + n) \<and> closure (ams ! n) = Closure fn \<and>
        (\<forall>m<n. closure (ams ! m) \<noteq> Closure fn)"
proof (induction ams arbitrary: i)
  case Nil
  then show ?case by simp
next
  case (Cons am ams)
  show ?case
  proof (cases "closure am = Closure fn")
    case True
    with Cons.prems have "j = closure_json i" by simp
    with True show ?thesis by (intro exI [of _ 0]) simp
  next
    case False
    with Cons.prems have "serialize_loop fn (Suc i) ams = Inr j" by simp
    from Cons.IH [OF this] obtain n where n: "n < length ams" "j = closure_json (Suc i + n)"
      "closure (ams ! n) = Closure fn" "\<forall>m<n. closure (ams ! m) \<noteq> Closure fn" by blast
    have "\<forall>m<Suc n. closure ((am # ams) ! m) \<noteq> Closure fn"
      using False n(4) by (auto simp: less_Suc_eq_0_disj)
    with n show ?thesis by (intro exI [of _ "Suc n"]) simp
  qed
qed

lemma serialize_loop_Inl:
  "(\<exists>e. serialize_loop fn i ams = Inl e) \<longleftrightarrow> (\<forall>am\<in>set ams. closure am \<noteq> Closure fn)"
  by (induction ams arbitrary: i) auto

text \<open>
  Claim C6, amended. The callback of a call is the first function among its arguments.
  Serializing the function \<open>fn\<close> against the calls \<open>ams\<close> returns the reference
  \<^verbatim>\<open>{_type: 'closure', callback_from: i}\<close> with \<open>i\<close> the first call whose callback is \<open>fn\<close>
  (that call has \<open>fn\<close> among its arguments), and raises an error exactly when \<open>fn\<close> is the
  callback of no call of \<open>ams\<close>.
\<close>

theorem Closure_serialize_first_callback:
  "(Closure_serialize fn ams = Inr j \<longrightarrow>
      (\<exists>i<length ams. j = closure_json i \<and> closure (ams ! i) = Closure fn \<and>
         Closure fn \<in> set (am_args (ams ! i)) \<and> (\<forall>k<i. closure (ams ! k) \<noteq> Closure fn)))
   \<and> ((\<exists>e. Closure_serialize fn ams = Inl e) \<longleftrightarrow> (\<forall>am\<in>set ams. closure am \<noteq> Closure fn))"
proof (intro conjI impI)
  assume "Closure_serialize fn ams = Inr j"
  then have "serialize_loop fn 0 ams = Inr j" by (simp add: Closure_serialize_def)
  from serialize_loop_Inr [OF this] obtain n where n: "n < length ams" "j = closure_json n"
    "closure (ams ! n) = Closure fn" "\<forall>m<n. closure (ams ! m) \<noteq> Closure fn" by auto
  with closure_in_args [OF n(3)] show "\<exists>i<length ams. j = closure_json i \<and> closure (ams ! i) = Closure fn \<and>
         Closure fn \<in> set (am_args (ams ! i)) \<and> (\<forall>k<i. closure (ams ! k) \<noteq> Closure fn)"
    by blast
next
  show "(\<exists>e. Closure_serialize fn ams = Inl e) \<longleftrightarrow> (\<forall>am\<in>set ams. closure am \<noteq> Closure fn)"
    unfolding Closure_serialize_def by (rule serialize_loop_Inl)
qed

theorem Closure_serialize_first_callback_witness:
  "Closure_serialize 1 [two_callbacks] = Inr (closure_json 0)
   \<and> closure ([two_callbacks] ! 0) = Closure 1
   \<and> Closure 1 \<in> set (am_args ([two_callbacks] ! 0))
   \<and> (\<exists>e. Closure_serialize 2 [two_callbacks] = Inl e)"
proof -
  have s: "Closure_serialize 1 [two_callbacks] = Inr (closure_json 0)"
    by (simp add: Closure_serialize_def two_callbacks_def Arguments_def closure_def closures_def)
  have c: "\<forall>am\<in>set [two_callbacks]. closure am \<noteq> Closure 2"
    by (simp add: two_callbacks_def Arguments_def closure_def closures_def)
  from Closure_serialize_first_callback [of 1 "[two_callbacks]" "closure_json 0"] s
  have "closure ([two_callbacks] ! 0) = Closure 1 \<and> Closure 1 \<in> set (am_args ([two_callbacks] ! 0))"
    by auto
  moreover from Closure_serialize_first_callback [of 2 "[two_callbacks]" "closure_json 0"] c
  have "\<exists>e. Closure_serialize 2 [two_callbacks] = Inl e" by blast
  ultimately show ?thesis using s by blast
qed

text \<open>
  A function that a call holds as its second function argument is among the arguments of
  a call of the context, and serializing it raises the error.
\<close>

theorem Closure_serialize_second_callback_counterexample:
  "Closure 2 \<in> set (am_args two_callbacks)
   \<and> Closure_serialize 2 [two_callbacks] =
       Inl (Error ''Closure callback not found in API messages'')"
  by (simp add: Closure_serialize_def two_callbacks_def Arguments_def closure_def closures_def)

lemma jt_closure_json [simp]: "jt (closure_json i) ''closure'' = Inr ()"
  by (simp add: jt_def closure_json_def)

lemma callback_from_closure_json [simp]:
  "getprop (closure_json i) ''callback_from'' = Inr (JNum (int i))"
  by (simp add: closure_json_def)

lemma Closure_assertEqual_closure_json:
  "Closure_assertEqual fn (closure_json i) ams =
     (if i < length ams then
        (case closure (ams ! i) of
           Closure g \<Rightarrow> if fn = g then Inr () else Inl (AssertionError [])
         | _ \<Rightarrow> Inl (TypeError ''Cannot read property of null''))
      else Inr ())"
  by (simp add: Closure_assertEqual_def)

lemma deeper_closure_json [simp]: "deeper_ArrayBuffer (closure_json i) = Inr False"
  by (simp add: deeper_ArrayBuffer_def closure_json_def)

lemma typeof_closure_json [simp]: "typeof (closure_json i) = ''object''"
  by (simp add: closure_json_def)

text \<open>
  Claim C5, amended. An actual callback \<open>fn\<close> is judged equal to the expected reference
  \<^verbatim>\<open>{_type: 'closure', callback_from: i}\<close> against the replayed calls \<open>ams\<close> exactly when
  \<open>i\<close> lies beyond \<open>ams\<close> (a new callback: nothing is compared, whatever \<open>fn\<close> is) or call
  \<open>i\<close> of \<open>ams\<close> has \<open>fn\<close> itself as its callback. A different function \<open>g\<close> as the
  callback of call \<open>i\<close> raises an assertion failure. The comparison of a closure argument
  by \<^verbatim>\<open>JSWrappedObject.assertEqual\<close> is this comparison.
\<close>

theorem callback_reference_equality:
  "(Closure_assertEqual fn (closure_json i) ams = Inr () \<longleftrightarrow>
      (length ams \<le> i \<or> (i < length ams \<and> closure (ams ! i) = Closure fn)))
   \<and> (i < length ams \<and> closure (ams ! i) = Closure g \<and> g \<noteq> fn \<longrightarrow>
        Closure_assertEqual fn (closure_json i) ams = Inl (AssertionError []))
   \<and> JSWrappedObject_assertEqual A (Closure fn) (closure_json i) ams =
        Closure_assertEqual fn (closure_json i) ams"
proof (intro conjI impI)
  show "Closure_assertEqual fn (closure_json i) ams = Inr () \<longleftrightarrow>
      (length ams \<le> i \<or> (i < length ams \<and> closure (ams ! i) = Closure fn))"
    by (cases "closure (ams ! i)") (auto simp: Closure_assertEqual_closure_json)
next
  assume "i < length ams \<and> closure (ams ! i) = Closure g \<and> g \<noteq> fn"
  then show "Closure_assertEqual fn (closure_json i) ams = Inl (AssertionError [])"
    by (auto simp: Closure_assertEqual_closure_json)
next
  show "JSWrappedObject_assertEqual A (Closure fn) (closure_json i) ams =
        Closure_assertEqual fn (closure_json i) ams"
    by simp
qed

theorem callback_reference_equality_witness:
  "closure ([addListener] ! 0) = Closure 1
   \<and> Closure_assertEqual 1 (closure_json 0) [addListener] = Inr ()
   \<and> Closure_assertEqual 2 (closure_json 0) [addListener] = Inl (AssertionError [])"
proof -
  have c: "closure ([addListener] ! 0) = Closure 1"
    by (simp add: addListener_def Arguments_def closure_def closures_def)
  have "0 < length [addListener] \<and> closure ([addListener] ! 0) = Closure 1 \<and> (1::nat) \<noteq> 2"
    using c by simp
  with callback_reference_equality [of 2 0 "[addListener]" 1]
  have "Closure_assertEqual 2 (closure_json 0) [addListener] = Inl (AssertionError [])"
    by blast
  moreover from callback_reference_equality [of 1 0 "[addListener]" 1] c
  have "Closure_assertEqual 1 (closure_json 0) [addListener] = Inr ()"
    by simp
  ultimately show ?thesis using c by simp
qed

text \<open>
  The function that is the callback of the replayed call 0 is accepted where the
  recording expects a new callback (index 1, beyond the one replayed call): whether the
  function was passed to an earlier call is not checked.
\<close>

theorem known_callback_accepted_as_new_counterexample:
  "closure addListener = Closure 1
   \<and> Closure_assertEqual 1 (closure_json 1) [addListener] = Inr ()"
  by (simp add: addListener_def Arguments_def closure_def closures_def
      Closure_assertEqual_closure_json)

subsection \<open>Replaying a call\<close>

lemma length_Arguments [simp]: "length (Arguments as) = length as"
  by (simp add: Arguments_def)

lemma checkedMethod_count_mismatch:
  assumes "serialLog self = api_message name json_args # rest"
    and "length json_args \<noteq> length arguments"
  shows "checkedMethod A fns name arguments self =
           Some (Inl (AssertionError []), self\<lparr>serialLog := rest\<rparr>)"
  using assms
  by (simp add: checkedMethod_def ApiMessage_assertEqual_def Arguments_assertEqual_def)

text \<open>
  Claim C9. \<^verbatim>\<open>Arguments.prototype.assertEqual\<close> compares the number of the recorded
  arguments with the number of the actual ones first: when they differ it raises an
  assertion failure, whatever the comparison of the values says, and only when they are
  equal it compares the arguments position by position. A replayed call whose number of
  arguments differs from the recorded one fails so, after the recorded call was taken from
  the log.
\<close>

theorem argument_count_asserted_first:
  "(length json_args \<noteq> length this_args \<longrightarrow>
      Arguments_assertEqual A this_args json_args ams = Inl (AssertionError []))
   \<and> (length json_args = length this_args \<longrightarrow>
      Arguments_assertEqual A this_args json_args ams =
        assertEqual_args A this_args json_args ams)
   \<and> (serialLog self = api_message name json_args # rest \<and>
        length json_args \<noteq> length arguments \<longrightarrow>
      checkedMethod A fns name arguments self =
        Some (Inl (AssertionError []), self\<lparr>serialLog := rest\<rparr>))"
  using checkedMethod_count_mismatch [of self name json_args rest arguments A fns]
  by (simp add: Arguments_assertEqual_def)

theorem argument_count_asserted_first_witness:
  "assertEqual_args same_value [JStr ''chris'', JNum 2] [JStr ''chris''] [] = Inr ()
   \<and> Arguments_assertEqual same_value [JStr ''chris'', JNum 2] [JStr ''chris''] [] =
       Inl (AssertionError [])
   \<and> Arguments_assertEqual same_value [JStr ''chris''] [JStr ''chris''] [] = Inr ()
   \<and> checkedMethod same_value no_callbacks ''bye'' [JStr ''chris'', JNum 2]
        (new_checker [api_message ''bye'' [JStr ''chris'']] ()) =
       Some (Inl (AssertionError []), new_checker [] ())"
proof -
  have 1: "assertEqual_args same_value [JStr ''chris'', JNum 2] [JStr ''chris''] [] = Inr ()"
    by (simp add: same_value_def)
  have 2: "assertEqual_args same_value [JStr ''chris''] [JStr ''chris''] [] = Inr ()"
    by (simp add: same_value_def)
  have 3: "(new_checker [api_message ''bye'' [JStr ''chris'']] ())\<lparr>serialLog := []\<rparr> = new_checker [] ()"
    by (simp add: new_checker_def)
  have 4: "serialLog (new_checker [api_message ''bye'' [JStr ''chris'']] ()) =
             api_message ''bye'' [JStr ''chris''] # []"
    by (simp add: new_checker_def)
  from argument_count_asserted_first
    [of "[JStr ''chris'']" "[JStr ''chris'', JNum 2]" same_value "[]"
        "new_checker [api_message ''bye'' [JStr ''chris'']] ()" "''bye''" "[]"
        "[JStr ''chris'', JNum 2]" no_callbacks]
  have a: "Arguments_assertEqual same_value [JStr ''chris'', JNum 2] [JStr ''chris''] [] =
       Inl (AssertionError [])"
    and b: "checkedMethod same_value no_callbacks ''bye'' [JStr ''chris'', JNum 2]
        (new_checker [api_message ''bye'' [JStr ''chris'']] ()) =
       Some (Inl (AssertionError []), new_checker [] ())"
    using 3 4 by simp_all
  have c0: "Arguments_assertEqual same_value [JStr ''chris''] [JStr ''chris''] [] =
      assertEqual_args same_value [JStr ''chris''] [JStr ''chris''] []"
    by (rule argument_count_asserted_first [THEN conjunct2, THEN conjunct1, THEN mp]) simp
  have c: "Arguments_assertEqual same_value [JStr ''chris''] [JStr ''chris''] [] = Inr ()"
    by (simp only: c0 2)
  from 1 a b c show ?thesis by simp
qed

subsection \<open>Calls that are not recorded, and the end of the program\<close>




lemma emulate_at_return:
  "serialLog self = r # rest \<Longrightarrow> is_api_message_return r \<Longrightarrow>
     emulate fns name self = Some (Inr (), self)"
  by (subst emulate.simps) simp










subsection \<open>The sanity check and the return value\<close>

text \<open>The calls of a log play no part in the sanity check.\<close>

lemma sanityCheckLog_ignores_calls:
  "sanityCheckLog log = sanityCheckLog (filter is_api_message_return log)"
  by (simp add: sanityCheckLog_def)

text \<open>
  Claim C2 fails on the code. A program calls one method of an api, which throws: the
  recorder has logged the call and no return. The checker that the recorder makes of this
  log is built without an error, because the log of one call that never returned passes
  the sanity check: the array \<^verbatim>\<open>calls\<close> holds the returns of the log, so the result of
  the check depends on the returns of the log only.
\<close>

theorem dangling_call_accepted:
  "wrappedMethod throwing_api ''event.addListener'' [JFunction 0] (Recorder_new [] ()) =
     (Inl (Error []),
      \<lparr>Recorder_log = [RApiMessage (ApiMessage ''event.addListener'' [Closure 0])],
       Recorder_methods = []\<rparr>)
   \<and> Recorder_checker
       \<lparr>Recorder_log = [RApiMessage (ApiMessage ''event.addListener'' [Closure 0])],
        Recorder_methods = []\<rparr> () =
     Inr (new_checker [api_message ''event.addListener'' [closure_json 0]] ())
   \<and> sanityCheckLog [api_message ''event.addListener'' [closure_json 0]] = Inr ()
   \<and> sanityCheckLog log = sanityCheckLog (filter is_api_message_return log)"
  by (simp add: wrappedMethod_def throwing_api_def Recorder_new_def Arguments_def apiMessages_def
      Recorder_checker_def Closure_serialize_def closure_def closures_def
      Checker_new_def sanityCheckLog_def new_checker_def)

text \<open>
  Claim C3 fails on the code: replaying the call \<^verbatim>\<open>farewell("x")\<close>, recorded with the
  return value \<^verbatim>\<open>true\<close>, returns the node \<^verbatim>\<open>{_type: 'return_value', value: true}\<close> of
  the log and not \<^verbatim>\<open>true\<close>.
\<close>

theorem farewell_returns_wrapper:
  "checkedMethod same_value no_callbacks ''farewell'' [JStr ''x'']
     (new_checker [api_message ''farewell'' [JStr ''x''],
                   api_message_return 0 (ReturnValue_serialize (JBool True))] ()) =
     Some (Inr (JObj [(''_type'', JStr ''return_value''), (''value'', JBool True)]),
           scheduleWake ((new_checker [] ())\<lparr>runMessageLog := [ApiMessage ''farewell'' [JStr ''x'']]\<rparr>))
   \<and> JObj [(''_type'', JStr ''return_value''), (''value'', JBool True)] \<noteq> JBool True"
  by (simp add: checkedMethod_def new_checker_def ApiMessage_assertEqual_def
      Arguments_assertEqual_def Arguments_def same_value_def emulate.simps
      ApiMessageReturn_deserialize_def ReturnValue_deserialize_def ReturnValue_serialize_def jt_def)

text \<open>Whatever a replayed call returns is a node tagged \<^verbatim>\<open>return_value\<close>.\<close>

lemma checkedMethod_returns_node:
  "checkedMethod A fns name arguments self = Some (Inr v, self') \<Longrightarrow>
     jt v ''return_value'' = Inr ()"
  by (auto simp: checkedMethod_def Let_def ApiMessageReturn_deserialize_def
      ReturnValue_deserialize_def
      split: list.splits sum.splits option.splits prod.splits event.splits if_splits)

text \<open>
  Claim C10 fails on the code: the log of one call and no return passes the sanity check
  of the constructor, and the replay of that call takes the call from the log and then
  reads \<^verbatim>\<open>_type\<close> of the head of the empty log, a \<^verbatim>\<open>TypeError\<close>.
\<close>

theorem head_of_empty_log_read:
  "Checker_new [api_message ''f'' []] [''f''] None () =
     Inr ((new_checker [api_message ''f'' []] ())\<lparr>methods := [''f'']\<rparr>)
   \<and> checkedMethod A fns ''f'' [] ((new_checker [api_message ''f'' []] ())\<lparr>methods := [''f'']\<rparr>) =
     Some (Inl (TypeError ''Cannot read property of undefined''),
           (new_checker [] ())\<lparr>methods := [''f''], runMessageLog := [ApiMessage ''f'' []]\<rparr>)"
  by (simp add: checkedMethod_def new_checker_def ApiMessage_assertEqual_def
      Arguments_assertEqual_def Arguments_def emulate.simps Checker_new_def sanityCheckLog_def)

subsection \<open>The synchronous callbacks of a call\<close>

lemma emulate_step:
  assumes "serialLog self = closure_call c ja # rest"
    and "ClosureCall_deserialize (runMessageLog self) (closure_call c ja) = Inr (fn, as)"
    and "fns fn (raw as) (self\<lparr>serialLog := rest\<rparr>) = (Inr x, self2)"
    and "serialLog self2 \<noteq> []"
  shows "emulate fns name self = emulate fns name self2"
  using assms by (subst emulate.simps) simp

lemma emulate_callbacks:
  assumes "no_api_call fns"
    and "list_all2 (\<lambda>(c, ja) call.
            ClosureCall_deserialize rml (closure_call c ja) = Inr call) cbs calls"
    and "serialLog self = map (\<lambda>(c, ja). closure_call c ja) cbs @ r # rest"
    and "runMessageLog self = rml"
    and "is_api_message_return r"
  shows "emulate fns name self = Some (Inr (), replay_callbacks fns calls self)
         \<and> serialLog (replay_callbacks fns calls self) = r # rest
         \<and> runMessageLog (replay_callbacks fns calls self) = rml"
  using assms(2,3,4)
proof (induction cbs calls arbitrary: self rule: list_all2_induct)
  case Nil
  then show ?case using assms(5) by (simp add: emulate_at_return)
next
  case (Cons cb cbs call calls)
  obtain c ja where cb: "cb = (c, ja)" by (cases cb)
  obtain fn as where call: "call = (fn, as)" by (cases call)
  let ?tl = "map (\<lambda>(c, ja). closure_call c ja) cbs @ r # rest"
  from Cons.prems cb have log: "serialLog self = closure_call c ja # ?tl" by simp
  from Cons.hyps(1) Cons.prems(2) cb call
  have des: "ClosureCall_deserialize (runMessageLog self) (closure_call c ja) = Inr (fn, as)"
    by simp
  from assms(1) obtain x self2 where
    f: "fns fn (raw as) (self\<lparr>serialLog := ?tl\<rparr>) = (Inr x, self2)"
    and l2: "serialLog self2 = serialLog (self\<lparr>serialLog := ?tl\<rparr>)"
    and r2: "runMessageLog self2 = runMessageLog (self\<lparr>serialLog := ?tl\<rparr>)"
    unfolding no_api_call_def by blast
  from l2 have l2': "serialLog self2 = ?tl" by simp
  from r2 Cons.prems(2) have r2': "runMessageLog self2 = rml" by simp
  have step: "emulate fns name self = emulate fns name self2"
    using log des f l2' by (intro emulate_step [where rest = ?tl]) auto
  from Cons.IH [OF l2' r2']
  have ih: "emulate fns name self2 = Some (Inr (), replay_callbacks fns calls self2)
         \<and> serialLog (replay_callbacks fns calls self2) = r # rest
         \<and> runMessageLog (replay_callbacks fns calls self2) = rml" .
  have "replay_callbacks fns (call # calls) self = replay_callbacks fns calls self2"
    using f log call by simp
  with ih step show ?case by simp
qed


lemma ClosureCall_deserialize_closure_json:
  assumes "i < length ams" and "closure (ams ! i) = Closure fn"
    and "deserialize_all ams ja = Inr vs"
  shows "ClosureCall_deserialize ams (closure_call (closure_json i) ja) = Inr (fn, Arguments vs)"
  using assms
  by (simp add: ClosureCall_deserialize_def Closure_deserialize_def Arguments_deserialize_def
      closure_json_def jt_def)

lemma resolved_callbacks:
  assumes "list_all2 (\<lambda>(i, ja) (fn, vs).
        i < length ams \<and> closure (ams ! i) = Closure fn \<and> deserialize_all ams ja = Inr vs)
      cbs calls"
  shows "list_all2 (\<lambda>(c, ja) call. ClosureCall_deserialize ams (closure_call c ja) = Inr call)
      (map (\<lambda>(i, ja). (closure_json i, ja)) cbs) (map (\<lambda>(fn, vs). (fn, Arguments vs)) calls)"
  using assms
  by (induction rule: list_all2_induct) (auto simp: ClosureCall_deserialize_closure_json)

text \<open>
  Claim C1, amended. Let the residual log start with the call, then invocations of
  callbacks (\<open>cbs\<close>: the position \<open>i\<close> of the call that the callback reference names, and
  the recorded arguments), then a return of the call \<open>k\<close> with the node \<open>v\<close>. Let the
  actual call match the recorded one; let every \<open>i\<close> be the position of a replayed call,
  the actual call included, that was given a callback, \<open>fn\<close> being the live function given
  first to that call, and let the recorded arguments decode to \<open>vs\<close>; and let the live
  functions return, without an exception and without an api call. Then the method takes
  the callback invocations from the log one by one and applies each live function \<open>fn\<close>
  to its recorded arguments \<open>vs\<close>, in the order of the log, before anything else; after
  that it takes the return from the log, and succeeds (arming the scheduler) exactly when
  the return refers to the call just matched, which is the call at position
  \<open>length (runMessageLog self)\<close>. Otherwise it fails.
\<close>

theorem synchronous_callbacks_replayed:
  assumes log: "serialLog self =
      api_message name json_args # map (\<lambda>(i, ja). closure_call (closure_json i) ja) cbs @
        api_message_return k v # rest"
    and matched: "ApiMessage_assertEqual A (ApiMessage name (Arguments arguments))
        (api_message name json_args) (runMessageLog self) = Inr ()"
    and resolved: "list_all2 (\<lambda>(i, ja) (fn, vs).
        i \<le> length (runMessageLog self) \<and>
        closure ((runMessageLog self @ [ApiMessage name (Arguments arguments)]) ! i) = Closure fn \<and>
        deserialize_all (runMessageLog self @ [ApiMessage name (Arguments arguments)]) ja = Inr vs)
        cbs calls"
    and quiet: "no_api_call fns"
    and node: "getprop v ''_type'' = Inr (JStr ''return_value'')"
  shows "checkedMethod A fns name arguments self =
     (let after =
        (replay_callbacks fns (map (\<lambda>(fn, vs). (fn, Arguments vs)) calls)
           (self\<lparr>serialLog := map (\<lambda>(i, ja). closure_call (closure_json i) ja) cbs @
                     api_message_return k v # rest,
                  runMessageLog := runMessageLog self @ [ApiMessage name (Arguments arguments)]\<rparr>))
        \<lparr>serialLog := rest\<rparr>
      in if k = length (runMessageLog self) then Some (Inr v, scheduleWake after)
         else if k < length (runMessageLog self) then Some (Inl (AssertionError []), after)
         else Some (Inl (Error ''undefined not of type ApiMessage''), after))"
proof -
  let ?am = "ApiMessage name (Arguments arguments)"
  let ?cis = "map (\<lambda>(i, ja). closure_call (closure_json i) ja) cbs"
  let ?evs = "?cis @ api_message_return k v # rest"
  let ?self2 = "self\<lparr>serialLog := ?evs, runMessageLog := runMessageLog self @ [?am]\<rparr>"
  let ?calls = "map (\<lambda>(fn, vs). (fn, Arguments vs)) calls"
  let ?S = "replay_callbacks fns ?calls ?self2"
  have c: "?cis = map (\<lambda>(c, ja). closure_call c ja) (map (\<lambda>(i, ja). (closure_json i, ja)) cbs)"
    by (simp add: case_prod_unfold)
  have r: "list_all2 (\<lambda>(i, ja) (fn, vs).
        i < length (runMessageLog self @ [?am]) \<and>
        closure ((runMessageLog self @ [?am]) ! i) = Closure fn \<and>
        deserialize_all (runMessageLog self @ [?am]) ja = Inr vs) cbs calls"
    using resolved by (simp add: less_Suc_eq_le)
  have "serialLog ?self2 =
      map (\<lambda>(c, ja). closure_call c ja) (map (\<lambda>(i, ja). (closure_json i, ja)) cbs) @
        api_message_return k v # rest"
    and "runMessageLog ?self2 = runMessageLog self @ [?am]"
    using c by simp_all
  from emulate_callbacks [OF quiet resolved_callbacks [OF r] this, of name]
  have em: "emulate fns name ?self2 = Some (Inr (), ?S)"
    and sl: "serialLog ?S = api_message_return k v # rest"
    and rl: "runMessageLog ?S = runMessageLog self @ [?am]"
    by simp_all
  have ret: "ApiMessageReturn_deserialize (runMessageLog self @ [?am]) (api_message_return k v) =
      (if k < Suc (length (runMessageLog self)) then Inr (k, v)
       else Inl (Error ''undefined not of type ApiMessage''))"
    using node by (simp add: ApiMessageReturn_deserialize_def ReturnValue_deserialize_def jt_def)
  show ?thesis
    using log matched em sl rl ret
    by (auto simp: checkedMethod_def Let_def)
qed

theorem synchronous_callbacks_replayed_witness:
  "no_api_call tracing
   \<and> checkedMethod same_value tracing ''greet'' [JStr ''x'', JFunction 7]
        ((new_checker greet_log [])\<lparr>runMessageLog := [ApiMessage ''listen'' [Closure 5]]\<rparr>) =
       Some (Inr (ReturnValue_serialize JUndefined),
             scheduleWake
               ((new_checker []
                   [(7, [JStr ''hello x'', ArrayBuffer [1, 2]]), (5, [JFunction 7])])
                  \<lparr>runMessageLog := [ApiMessage ''listen'' [Closure 5],
                                     ApiMessage ''greet'' [JStr ''x'', Closure 7]]\<rparr>))"
proof -
  let ?self = "(new_checker greet_log ([] :: (nat \<times> jsval list) list))
      \<lparr>runMessageLog := [ApiMessage ''listen'' [Closure 5]]\<rparr>"
  let ?cbs = "[(1, [JStr ''hello x'', wrapped_js_object (JArr [JNum 1, JNum 2])]),
      (0, [closure_json 1])]"
  let ?calls = "[(7, [JStr ''hello x'', ArrayBuffer [1, 2]]), (5, [Closure 7])]"
  have q: "no_api_call tracing"
    by (simp add: no_api_call_def tracing_def)
  have log: "serialLog ?self =
      api_message ''greet'' [JStr ''x'', closure_json 1] #
        map (\<lambda>(i, ja). closure_call (closure_json i) ja) ?cbs @
        api_message_return 1 (ReturnValue_serialize JUndefined) # []"
    by (simp add: new_checker_def greet_log_def)
  have matched: "ApiMessage_assertEqual same_value
        (ApiMessage ''greet'' (Arguments [JStr ''x'', JFunction 7]))
        (api_message ''greet'' [JStr ''x'', closure_json 1]) (runMessageLog ?self) = Inr ()"
    by (simp add: ApiMessage_assertEqual_def Arguments_assertEqual_def Arguments_def
        same_value_def new_checker_def Closure_assertEqual_closure_json)
  have resolved: "list_all2 (\<lambda>(i, ja) (fn, vs).
        i \<le> length (runMessageLog ?self) \<and>
        closure ((runMessageLog ?self @
            [ApiMessage ''greet'' (Arguments [JStr ''x'', JFunction 7])]) ! i) = Closure fn \<and>
        deserialize_all (runMessageLog ?self @
            [ApiMessage ''greet'' (Arguments [JStr ''x'', JFunction 7])]) ja = Inr vs)
        ?cbs ?calls"
    by (simp add: Closure_deserialize_def Arguments_def new_checker_def closure_def
        closures_def wrapped_js_object_def deeper_ArrayBuffer_def closure_json_def jt_def)
  have node: "getprop (ReturnValue_serialize JUndefined) ''_type'' = Inr (JStr ''return_value'')"
    by (simp add: ReturnValue_serialize_def)
  from synchronous_callbacks_replayed [OF log matched resolved q node]
  have "checkedMethod same_value tracing ''greet'' [JStr ''x'', JFunction 7] ?self =
       Some (Inr (ReturnValue_serialize JUndefined),
             scheduleWake
               ((new_checker []
                   [(7, [JStr ''hello x'', ArrayBuffer [1, 2]]), (5, [JFunction 7])])
                  \<lparr>runMessageLog := [ApiMessage ''listen'' [Closure 5],
                                     ApiMessage ''greet'' [JStr ''x'', Closure 7]]\<rparr>))"
    by (simp add: new_checker_def tracing_def Arguments_def raw_def)
  with q show ?thesis by simp
qed

text \<open>
  The log \<open>twice_log\<close> is accepted, the call matches it and its callback is invoked for
  the first invocation; the callback calls \<^verbatim>\<open>api.bye()\<close>, which takes the second
  invocation from the log and fails, and the callback ignores the failure. The method
  then finds the return and returns: the second recorded invocation was never made.
\<close>

theorem swallowed_call_skips_callback_counterexample:
  "Checker_new twice_log [] None ([] :: (nat \<times> jsval list) list) =
     Inr (new_checker twice_log [])
   \<and> checkedMethod same_value swallowing ''greet'' [JFunction 7] (new_checker twice_log []) =
       Some (Inr (ReturnValue_serialize JUndefined),
             scheduleWake
               ((new_checker [] [(7, [JNum 1])])
                  \<lparr>runMessageLog := [ApiMessage ''greet'' [Closure 7]]\<rparr>))"
  by code_simp

subsection \<open>The deferred task\<close>

lemma one_pending_scheduleWake: "one_pending self \<Longrightarrow> one_pending (scheduleWake self)"
  by (simp add: one_pending_def scheduleWake_def)

lemma one_pending_serialLog [simp]:
  "one_pending (self\<lparr>serialLog := l\<rparr>) = one_pending self"
  by (simp add: one_pending_def)

lemma one_pending_runMessageLog [simp]:
  "one_pending (self\<lparr>runMessageLog := l\<rparr>) = one_pending self"
  by (simp add: one_pending_def)

lemma keeps_one_pendingD:
  "keeps_one_pending fns \<Longrightarrow> one_pending self \<Longrightarrow> fns fn as self = (r, self') \<Longrightarrow>
     one_pending self'"
  unfolding keeps_one_pending_def by (metis snd_conv)

lemma one_pending_emulate_aux:
  assumes "emulate fns name self = Some y"
  shows "keeps_one_pending fns \<longrightarrow> one_pending self \<longrightarrow> one_pending (snd y)"
proof (rule emulate.raw_induct
    [where P = "\<lambda>fns name self y.
       keeps_one_pending fns \<longrightarrow> one_pending self \<longrightarrow> one_pending (snd y)", OF _ assms],
    goal_cases)
  case (1 emulate' fns name self y)
  show ?case
  proof (intro impI)
    assume keeps: "keeps_one_pending fns" and op: "one_pending self"
    show "one_pending (snd y)"
    proof (cases "serialLog self")
      case Nil
      with 1(2) op show ?thesis by auto
    next
      case (Cons sl rest)
      show ?thesis
      proof (cases "is_api_message_return sl")
        case True
        with 1(2) Cons op show ?thesis by auto
      next
        case False
        let ?self1 = "self\<lparr>serialLog := rest\<rparr>"
        show ?thesis
        proof (cases "ClosureCall_deserialize (runMessageLog ?self1) sl")
          case (Inl e)
          with 1(2) Cons False op show ?thesis by auto
        next
          case (Inr call)
          obtain fn as where call: "call = (fn, as)" by (cases call)
          obtain r self2 where f: "fns fn (raw as) ?self1 = (r, self2)"
            by (cases "fns fn (raw as) ?self1")
          have op2: "one_pending self2"
            using keeps_one_pendingD [OF keeps _ f] op by simp
          show ?thesis
          proof (cases r)
            case (Inl e)
            with 1(2) Cons False Inr call f op2 show ?thesis by auto
          next
            case r: (Inr x)
            show ?thesis
            proof (cases "serialLog self2 = []")
              case True
              with 1(2) Cons False Inr call f op2 r show ?thesis by auto
            next
              case F2: False
              with 1(2) Cons False Inr call f r
              have "emulate' fns name self2 = Some y" by simp
              from 1(1) [OF this] keeps op2 show ?thesis by blast
            qed
          qed
        qed
      qed
    qed
  qed
qed

lemma one_pending_emulate:
  "emulate fns name self = Some (res, self') \<Longrightarrow> keeps_one_pending fns \<Longrightarrow>
     one_pending self \<Longrightarrow> one_pending self'"
  using one_pending_emulate_aux [of fns name self "(res, self')"] by simp

lemma one_pending_checkedMethod:
  assumes "checkedMethod A fns name arguments self = Some (res, self')"
    and "keeps_one_pending fns" and "one_pending self"
  shows "one_pending self'"
proof (cases "serialLog self")
  case Nil
  with assms show ?thesis by (simp add: checkedMethod_def)
next
  case (Cons am rest)
  let ?am = "ApiMessage name (Arguments arguments)"
  let ?self1 = "self\<lparr>serialLog := rest\<rparr>"
  let ?self2 = "?self1\<lparr>runMessageLog := runMessageLog ?self1 @ [?am]\<rparr>"
  show ?thesis
  proof (cases "ApiMessage_assertEqual A ?am am (runMessageLog ?self1)")
    case (Inl e)
    with assms Cons show ?thesis by (auto simp: checkedMethod_def)
  next
    case (Inr u)
    show ?thesis
    proof (cases "emulate fns name ?self2")
      case None
      with assms(1) Cons Inr show ?thesis by (simp add: checkedMethod_def)
    next
      case (Some y)
      obtain r self3 where y: "y = (r, self3)" by (cases y)
      have op3: "one_pending self3"
        using one_pending_emulate [OF Some [unfolded y] assms(2)] assms(3) by simp
      have op4: "\<And>l. one_pending (scheduleWake (self3\<lparr>serialLog := l\<rparr>))"
        using op3 by (simp add: one_pending_scheduleWake)
      from assms(1) Cons Inr Some y op3 op4 show ?thesis
        by (auto simp: checkedMethod_def Let_def
            split: sum.splits list.splits prod.splits if_splits)
    qed
  qed
qed

lemma one_pending_wake:
  assumes "wake fns self = (res, self')" and "keeps_one_pending fns"
    and "truthy (scheduler self)" and "pending self = 0"
  shows "one_pending self'"
proof -
  let ?self = "self\<lparr>next_timeout := JNull\<rparr>"
  have op: "one_pending ?self" using assms(3,4) by (simp add: one_pending_def)
  show ?thesis
  proof (cases "serialLog self")
    case Nil
    with assms(1) op show ?thesis by (auto simp: wake_def)
  next
    case (Cons ev rest)
    show ?thesis
    proof (cases "is_closure_call ev")
      case False
      with assms(1) Cons op show ?thesis by (auto simp: wake_def)
    next
      case True
      let ?self1 = "?self\<lparr>serialLog := rest\<rparr>"
      show ?thesis
      proof (cases "ClosureCall_deserialize (runMessageLog ?self1) ev")
        case (Inl e)
        with assms(1) Cons True op show ?thesis by (auto simp: wake_def)
      next
        case (Inr call)
        obtain fn as where call: "call = (fn, as)" by (cases call)
        obtain r self2 where f: "fns fn (raw as) ?self1 = (r, self2)"
          by (cases "fns fn (raw as) ?self1")
        have op2: "one_pending self2"
          using keeps_one_pendingD [OF assms(2) _ f] op by simp
        with assms(1) Cons True Inr call f show ?thesis
          by (cases r) (auto simp: wake_def one_pending_scheduleWake)
      qed
    qed
  qed
qed

lemma one_pending_run_deferred:
  assumes "run_deferred fns self = (res, self')" and "keeps_one_pending fns"
    and "one_pending self"
  shows "one_pending self'"
proof (cases "pending self = 0")
  case True
  with assms show ?thesis by (simp add: run_deferred_def)
next
  case False
  with assms(3) have p: "pending self = 1" and s: "truthy (scheduler self)"
    by (auto simp: one_pending_def split: if_splits)
  from assms(1) False have "wake fns (self\<lparr>pending := pending self - 1\<rparr>) = (res, self')"
    by (simp add: run_deferred_def)
  from one_pending_wake [OF this assms(2)] p s show ?thesis by simp
qed

lemma one_pending_Checker_new:
  "Checker_new log ms sched p = Inr self \<Longrightarrow> truthy (handle_of sched) \<Longrightarrow> one_pending self"
  by (auto simp: Checker_new_def one_pending_def handle_of_def split: sum.splits)

lemma reachable_one_pending:
  assumes "reachable A fns sched self" and "truthy (handle_of sched)"
    and "keeps_one_pending fns"
  shows "one_pending self"
  using assms(1)
proof (induction rule: reachable.induct)
  case (constructed log ms p self)
  then show ?case using assms(2) by (rule one_pending_Checker_new)
next
  case (called self name arguments res self')
  from one_pending_checkedMethod [OF called.hyps(2) assms(3) called.IH] show ?case .
next
  case (deferred_run self res self')
  from one_pending_run_deferred [OF deferred_run.hyps(2) assms(3) deferred_run.IH] show ?case .
qed

lemma wake_closure_call:
  assumes "serialLog self = closure_call c ja # rest"
    and "ClosureCall_deserialize (runMessageLog self) (closure_call c ja) = Inr (fn, as)"
    and "fns fn (raw as) (self\<lparr>next_timeout := JNull, serialLog := rest\<rparr>) = (Inr x, self')"
  shows "wake fns self = (Inr (), scheduleWake self')"
  using assms by (simp add: wake_def)

lemma wake_other:
  assumes "serialLog self = [] \<or> \<not> is_closure_call (hd (serialLog self))"
  shows "wake fns self = (Inr (), self\<lparr>next_timeout := JNull\<rparr>)"
  using assms by (cases "serialLog self") (auto simp: wake_def)

lemma one_pending_more [simp]:
  "one_pending (self\<lparr>Checker.more := p\<rparr>) = one_pending self"
  by (simp add: one_pending_def)

lemma through_api_one_pending:
  "through_api A g \<Longrightarrow> one_pending self \<Longrightarrow> one_pending (snd (g self))"
proof (induction arbitrary: self rule: through_api.induct)
  case (own g)
  from own.hyps [of self] obtain r p where "g self = (r, self\<lparr>Checker.more := p\<rparr>)" by blast
  with own.prems show ?case by simp
next
  case (call fns name arguments)
  have k: "keeps_one_pending fns"
    unfolding keeps_one_pending_def using call.IH by blast
  show ?case
  proof (cases "checkedMethod A fns name arguments self")
    case None
    with call.prems show ?thesis by (simp add: api_call_def)
  next
    case (Some y)
    obtain r self' where y: "y = (r, self')" by (cases y)
    from one_pending_checkedMethod [OF Some [unfolded y] k call.prems]
    show ?thesis using Some y by (simp add: api_call_def)
  qed
next
  case (seq g h)
  obtain r self' where g: "g self = (r, self')" by (cases "g self")
  from seq.IH(1) [OF seq.prems] g have "one_pending self'" by simp
  from seq.IH(2) [OF this, of r] g show ?case by (simp add: then_do_def)
qed

lemma through_api_keeps_one_pending:
  "(\<And>fn as. through_api A (fns fn as)) \<Longrightarrow> keeps_one_pending fns"
  unfolding keeps_one_pending_def using through_api_one_pending by blast

lemma own_state: "\<exists>p. self = self\<lparr>Checker.more := p\<rparr>"
  by (rule exI [of _ "Checker.more self"]) simp

lemma through_api_no_callbacks: "through_api A (no_callbacks fn as)"
  by (rule through_api.own) (simp add: no_callbacks_def own_state)

lemma through_api_calls_bye: "through_api same_value (calls_bye fn as)"
proof (cases "fn = 7")
  case True
  have "through_api same_value
      (then_do (api_call same_value (no_callbacks :: unit live) ''bye'' [JStr ''chris''])
          (\<lambda>r self. (case r of Inl e \<Rightarrow> Inl e | Inr _ \<Rightarrow> Inr JUndefined, self)))"
  proof (rule through_api.seq)
    show "through_api same_value (api_call same_value no_callbacks ''bye'' [JStr ''chris''])"
      by (rule through_api.call) (rule through_api_no_callbacks)
  next
    fix r :: "error + jsval"
    show "through_api same_value
        (\<lambda>self :: Checker. (case r of Inl e \<Rightarrow> Inl e | Inr _ \<Rightarrow> Inr JUndefined, self))"
      by (rule through_api.own) (simp add: own_state)
  qed
  with True show ?thesis by (simp add: calls_bye_def)
next
  case False
  have "through_api same_value (\<lambda>self :: Checker. (Inr JUndefined :: error + jsval, self))"
    by (rule through_api.own) (simp add: own_state)
  with False show ?thesis by (simp add: calls_bye_def)
qed

lemma wake_callback:
  assumes "serialLog self = closure_call (closure_json i) ja # rest"
    and "i < length (runMessageLog self)"
    and "closure (runMessageLog self ! i) = Closure fn"
    and "deserialize_all (runMessageLog self) ja = Inr vs"
    and "fns fn (raw (Arguments vs)) (self\<lparr>next_timeout := JNull, serialLog := rest\<rparr>) =
           (Inr x, self')"
  shows "wake fns self = (Inr (), scheduleWake self')"
  using assms ClosureCall_deserialize_closure_json [of i "runMessageLog self" fn ja vs]
  by (simp add: wake_def)

text \<open>
  Claim C4, amended. When the scheduler's \<^verbatim>\<open>setTimeout\<close> returns a handle that counts as
  true (as the platform's does), the scheduler holds at most one deferred task of the
  checker in every state that a program reaches by calls of the api and runs of the
  deferred task, its functions acting on the checker through the api only. Arming while
  \<^verbatim>\<open>next\<close> holds such a handle changes nothing. When the deferred task runs and the head
  of the residual log is the invocation of the callback of the replayed call \<open>i\<close>, with
  recorded arguments that decode to \<open>vs\<close>, the event is taken from the log, the live
  function that was given to the call \<open>i\<close> is applied to \<open>vs\<close> and, once it has returned,
  the task is armed again; when the log is empty or its head is another event, only
  \<^verbatim>\<open>next\<close> is reset, so the residual log and the replayed calls are as before.
\<close>

theorem at_most_one_deferred_task:
  "(truthy (handle_of sched) \<and> (\<forall>fn as. through_api A (fns fn as)) \<and>
    reachable A fns sched self \<longrightarrow> pending self \<le> 1)
   \<and> (truthy (next_timeout self) \<longrightarrow> scheduleWake self = self)
   \<and> (serialLog self = closure_call (closure_json i) ja # rest \<and>
       i < length (runMessageLog self) \<and> closure (runMessageLog self ! i) = Closure fn \<and>
       deserialize_all (runMessageLog self) ja = Inr vs \<and>
       fns fn (raw (Arguments vs)) (self\<lparr>next_timeout := JNull, serialLog := rest\<rparr>) =
         (Inr x, self') \<longrightarrow>
      wake fns self = (Inr (), scheduleWake self'))
   \<and> (serialLog self = [] \<or> \<not> is_closure_call (hd (serialLog self)) \<longrightarrow>
      wake fns self = (Inr (), self\<lparr>next_timeout := JNull\<rparr>))"
proof (intro conjI impI)
  assume a: "truthy (handle_of sched) \<and> (\<forall>fn as. through_api A (fns fn as)) \<and>
    reachable A fns sched self"
  then have "keeps_one_pending fns" by (intro through_api_keeps_one_pending) blast
  with a have "one_pending self" using reachable_one_pending by blast
  then show "pending self \<le> 1" by (simp add: one_pending_def split: if_splits)
next
  assume "truthy (next_timeout self)"
  then show "scheduleWake self = self" by (simp add: scheduleWake_def)
next
  assume "serialLog self = closure_call (closure_json i) ja # rest \<and>
       i < length (runMessageLog self) \<and> closure (runMessageLog self ! i) = Closure fn \<and>
       deserialize_all (runMessageLog self) ja = Inr vs \<and>
       fns fn (raw (Arguments vs)) (self\<lparr>next_timeout := JNull, serialLog := rest\<rparr>) =
         (Inr x, self')"
  then show "wake fns self = (Inr (), scheduleWake self')"
    using wake_callback by blast
next
  assume "serialLog self = [] \<or> \<not> is_closure_call (hd (serialLog self))"
  then show "wake fns self = (Inr (), self\<lparr>next_timeout := JNull\<rparr>)"
    by (rule wake_other)
qed

lemma async_constructed: "Checker_new async_log [] None () = Inr (new_checker async_log ())"
  by code_simp

lemma async_listen:
  "checkedMethod same_value calls_bye ''listen'' [JFunction 5] (new_checker async_log ()) =
   Some (Inr (ReturnValue_serialize JUndefined), after_listen)"
  by code_simp

lemma async_hello:
  "checkedMethod same_value calls_bye ''hello'' [JStr ''chris'', JFunction 7] after_listen =
   Some (Inr (ReturnValue_serialize JUndefined), after_hello)"
  by code_simp

lemma async_head:
  "serialLog (after_hello\<lparr>pending := 0\<rparr>) =
     closure_call (closure_json 1) [JStr ''Hello! chris''] # drop 5 async_log"
  by (simp add: after_hello_def new_checker_def async_log_def)

lemma async_resolved:
  "1 < length (runMessageLog (after_hello\<lparr>pending := 0\<rparr>))
   \<and> closure (runMessageLog (after_hello\<lparr>pending := 0\<rparr>) ! 1) = Closure 7
   \<and> deserialize_all (runMessageLog (after_hello\<lparr>pending := 0\<rparr>)) [JStr ''Hello! chris''] =
       Inr [JStr ''Hello! chris'']"
  by (simp add: after_hello_def closure_def closures_def)

lemma async_invoked:
  "calls_bye 7 (raw (Arguments [JStr ''Hello! chris'']))
     ((after_hello\<lparr>pending := 0\<rparr>)\<lparr>next_timeout := JNull, serialLog := drop 5 async_log\<rparr>) =
   (Inr JUndefined, after_callback)"
  by code_simp

lemma async_rearmed: "scheduleWake after_callback = after_callback"
  by (simp add: scheduleWake_def after_callback_def platform_setTimeout_def)

lemma async_deferred: "run_deferred calls_bye after_hello = (Inr (), after_callback)"
  by code_simp

theorem at_most_one_deferred_task_witness:
  "truthy (handle_of None)
   \<and> reachable same_value calls_bye None after_callback
   \<and> pending after_callback \<le> 1
   \<and> truthy (next_timeout after_callback)
   \<and> scheduleWake after_callback = after_callback
   \<and> wake calls_bye (after_hello\<lparr>pending := 0\<rparr>) = (Inr (), after_callback)
   \<and> wake calls_bye (after_callback\<lparr>pending := 0\<rparr>) =
       (Inr (), after_callback\<lparr>pending := 0, next_timeout := JNull\<rparr>)"
proof -
  note T = at_most_one_deferred_task
  have h: "truthy (handle_of None)"
    by (simp add: handle_of_def platform_setTimeout_def)
  have a: "\<forall>fn as. through_api same_value (calls_bye fn as)"
    using through_api_calls_bye by blast
  have r: "reachable same_value calls_bye None after_callback"
    by (rule reachable.deferred_run
        [OF reachable.called
          [OF reachable.called [OF reachable.constructed [OF async_constructed] async_listen]
            async_hello]
          async_deferred])
  from T [of None same_value calls_bye after_callback] h a r
  have p: "pending after_callback \<le> 1" by blast
  have t: "truthy (next_timeout after_callback)"
    by (simp add: after_callback_def platform_setTimeout_def)
  from T [of None same_value calls_bye after_callback] t
  have s: "scheduleWake after_callback = after_callback" by blast
  note w1 = async_head and w2 = async_resolved and w3 = async_invoked
  from T [of None same_value calls_bye "after_hello\<lparr>pending := 0\<rparr>" 1
      "[JStr ''Hello! chris'']" "drop 5 async_log" 7 "[JStr ''Hello! chris'']" JUndefined
      after_callback] w1 w2 w3
  have "wake calls_bye (after_hello\<lparr>pending := 0\<rparr>) = (Inr (), scheduleWake after_callback)"
    by blast
  with s have k: "wake calls_bye (after_hello\<lparr>pending := 0\<rparr>) = (Inr (), after_callback)"
    by simp
  have e: "serialLog (after_callback\<lparr>pending := 0\<rparr>) = []"
    by (simp add: after_callback_def new_checker_def)
  from T [of None same_value calls_bye "after_callback\<lparr>pending := 0\<rparr>"] e
  have o: "wake calls_bye (after_callback\<lparr>pending := 0\<rparr>) =
       (Inr (), after_callback\<lparr>pending := 0, next_timeout := JNull\<rparr>)"
    by simp
  from h r p t s k o show ?thesis by blast
qed

lemma void_constructed:
  "Checker_new two_calls_log [] (Some JUndefined) () =
     Inr ((new_checker two_calls_log ())\<lparr>scheduler := JUndefined\<rparr>)"
  by (simp add: Checker_new_def sanityCheckLog_def two_calls_log_def new_checker_def)

lemma void_first_call:
  "checkedMethod same_value no_callbacks ''bye'' []
     ((new_checker two_calls_log ())\<lparr>scheduler := JUndefined\<rparr>) =
   Some (Inr (ReturnValue_serialize JUndefined),
     (new_checker (drop 2 two_calls_log) ())
       \<lparr>scheduler := JUndefined, runMessageLog := [ApiMessage ''bye'' []],
        next_timeout := JUndefined, pending := 1\<rparr>)"
  by code_simp

lemma void_second_call:
  "checkedMethod same_value no_callbacks ''bye'' []
     ((new_checker (drop 2 two_calls_log) ())
       \<lparr>scheduler := JUndefined, runMessageLog := [ApiMessage ''bye'' []],
        next_timeout := JUndefined, pending := 1\<rparr>) =
   Some (Inr (ReturnValue_serialize JUndefined), after_two_calls)"
  by code_simp

text \<open>
  With a scheduler whose \<^verbatim>\<open>setTimeout\<close> returns \<^verbatim>\<open>undefined\<close>, \<^verbatim>\<open>next\<close> never counts as
  true and every call that returns defers one more task: after two calls the scheduler
  holds two.
\<close>

theorem two_deferred_tasks_counterexample:
  "reachable same_value no_callbacks (Some JUndefined) after_two_calls
   \<and> pending after_two_calls = 2"
proof
  show "reachable same_value no_callbacks (Some JUndefined) after_two_calls"
    by (rule reachable.called
        [OF reachable.called [OF reachable.constructed [OF void_constructed] void_first_call]
          void_second_call])
  show "pending after_two_calls = 2" by (simp add: after_two_calls_def)
qed

subsection \<open>The tests of the repository\<close>

text \<open>
  The model on the inputs of the repository's tests: the replay of the recorded program
  succeeds and leaves nothing in the log; a call with another argument fails the
  comparison; a program whose callback does not make the recorded call fails, because the
  loop takes the call \<^verbatim>\<open>bye\<close> for a callback invocation; a buffer of other bytes fails the
  comparison; and the log of a method that threw, followed by a call that returned, is
  refused by the sanity check.
\<close>

lemma test_recorder_replay:
  "Checker_new sync_log [] None () = Inr (new_checker sync_log ())
   \<and> checkedMethod same_value calls_bye ''hello'' [JStr ''chris'', JFunction 7]
       (new_checker sync_log ()) =
     Some (Inr (ReturnValue_serialize JUndefined), after_replay)
   \<and> Checker_done after_replay = Inr ()"
  by code_simp

lemma test_bad_args:
  "checkedMethod same_value calls_bye ''hello'' [JStr ''christos'', JFunction 7]
       (new_checker sync_log ()) =
     Some (Inl (AssertionError []), new_checker (tl sync_log) ())"
  by code_simp

lemma test_incomplete:
  "checkedMethod same_value no_callbacks ''hello'' [JStr ''chris'', JFunction 7]
       (new_checker sync_log ()) =
     Some (Inl (Error ''should be a closure_call''),
           (new_checker (drop 3 sync_log) ())
             \<lparr>runMessageLog := [ApiMessage ''hello'' [JStr ''chris'', Closure 7]]\<rparr>)"
  by code_simp

lemma test_arraybuffers:
  "JSWrappedObject_assertEqual same_value (ArrayBuffer [1, 2, 3])
       (wrapped_js_object (JArr [JNum 1, JNum 2, JNum 3])) [] = Inr ()
   \<and> JSWrappedObject_assertEqual same_value (ArrayBuffer [1, 3, 5])
       (wrapped_js_object (JArr [JNum 1, JNum 2, JNum 3])) [] = Inl (AssertionError [])"
  by (simp add: wrapped_js_object_def deeper_ArrayBuffer_def same_value_def)

lemma test_error_throwing_api:
  "sanityCheckLog
     [api_message ''event.addListener'' [closure_json 0],
      api_message ''event.removeListener'' [closure_json 0],
      api_message_return 1 (ReturnValue_serialize JUndefined)] =
     Inl (Error ''Returned from non-called:'')"
  by (simp add: sanityCheckLog_def)

end
